theory Spec2Isabelle
  imports Complex_Main "HOL-Library.Word"
begin

text \<open>
  A model of \<open>BiomassAnalyzer\<close> (\<open>data-analysis/biomass_analysis.py\<close>): image loading,
  the four feature extractors, the estimator with its scaler, fallback and confidence
  heuristic, and the aggregation over a batch. The calls into OpenCV, scikit-learn and
  Keras are parameters or are written out from the libraries' documented behaviour;
  what raises in Python returns \<open>Inl\<close> here, and a \<open>try\<close> block is a body with the
  handler applied to its \<open>Inl\<close>.
\<close>

section \<open>Numbers as NumPy computes them\<close>

text \<open>
  The module computes in IEEE floating point through NumPy. A value is modelled as a
  real number or one of the three special values: rounding and overflow are left
  out, the special values and the way they arise (a division by zero does not raise
  in NumPy, it yields an infinity or a NaN) are kept.
\<close>

datatype npfloat = Fin real | PInf | NInf | NaN

datatype exn = ValueError string | IndexError string | Cv2Error string | BackendError string

fun exn_str :: "exn \<Rightarrow> string" where
  "exn_str (ValueError s) = s"
| "exn_str (IndexError s) = s"
| "exn_str (Cv2Error s) = s"
| "exn_str (BackendError s) = s"

fun is_fin :: "npfloat \<Rightarrow> bool" where
  "is_fin (Fin _) = True"
| "is_fin _ = False"

fun np_neg :: "npfloat \<Rightarrow> npfloat" where
  "np_neg (Fin a) = Fin (- a)"
| "np_neg PInf = NInf"
| "np_neg NInf = PInf"
| "np_neg NaN = NaN"

fun np_add :: "npfloat \<Rightarrow> npfloat \<Rightarrow> npfloat" where
  "np_add (Fin a) (Fin b) = Fin (a + b)"
| "np_add NaN _ = NaN"
| "np_add _ NaN = NaN"
| "np_add PInf NInf = NaN"
| "np_add NInf PInf = NaN"
| "np_add PInf _ = PInf"
| "np_add _ PInf = PInf"
| "np_add NInf _ = NInf"
| "np_add _ NInf = NInf"

definition np_sub :: "npfloat \<Rightarrow> npfloat \<Rightarrow> npfloat" where
  "np_sub a b = np_add a (np_neg b)"

text \<open>The sign of a value that is not NaN: 1, 0 or -1.\<close>

fun np_sign :: "npfloat \<Rightarrow> int" where
  "np_sign (Fin a) = (if 0 < a then 1 else if a < 0 then - 1 else 0)"
| "np_sign PInf = 1"
| "np_sign NInf = - 1"
| "np_sign NaN = 0"

definition signed_inf :: "int \<Rightarrow> npfloat" where
  "signed_inf s = (if 0 < s then PInf else if s < 0 then NInf else NaN)"

fun np_mul :: "npfloat \<Rightarrow> npfloat \<Rightarrow> npfloat" where
  "np_mul (Fin a) (Fin b) = Fin (a * b)"
| "np_mul NaN _ = NaN"
| "np_mul _ NaN = NaN"
| "np_mul x y = signed_inf (np_sign x * np_sign y)"

text \<open>
  Division: a finite value over zero is an infinity of the sign of the dividend
  (the zero divisors of this module are sums, which are +0), zero over zero is NaN.
\<close>

fun np_div :: "npfloat \<Rightarrow> npfloat \<Rightarrow> npfloat" where
  "np_div (Fin a) (Fin b) = (if b \<noteq> 0 then Fin (a / b) else signed_inf (np_sign (Fin a)))"
| "np_div NaN _ = NaN"
| "np_div _ NaN = NaN"
| "np_div (Fin a) _ = Fin 0"
| "np_div x (Fin b) = signed_inf (np_sign x * (if b < 0 then - 1 else 1))"
| "np_div _ _ = NaN"

fun np_sqrt :: "npfloat \<Rightarrow> npfloat" where
  "np_sqrt (Fin a) = (if 0 \<le> a then Fin (sqrt a) else NaN)"
| "np_sqrt PInf = PInf"
| "np_sqrt _ = NaN"

text \<open>The comparison \<open><\<close> of IEEE values: false as soon as one side is NaN.\<close>

fun np_less :: "npfloat \<Rightarrow> npfloat \<Rightarrow> bool" where
  "np_less (Fin a) (Fin b) = (a < b)"
| "np_less NaN _ = False"
| "np_less _ NaN = False"
| "np_less PInf _ = False"
| "np_less _ PInf = True"
| "np_less _ NInf = False"
| "np_less NInf _ = True"

text \<open>Python's builtin \<open>min(a, b)\<close> keeps the first argument unless the second is smaller.\<close>

definition py_min :: "npfloat \<Rightarrow> npfloat \<Rightarrow> npfloat" where
  "py_min a b = (if np_less b a then b else a)"

text \<open>\<open>np.minimum\<close> and \<open>np.maximum\<close> propagate NaN; \<open>np.clip\<close> is their composition.\<close>

definition np_minimum :: "npfloat \<Rightarrow> npfloat \<Rightarrow> npfloat" where
  "np_minimum a b = (if a = NaN \<or> b = NaN then NaN else if np_less b a then b else a)"

definition np_maximum :: "npfloat \<Rightarrow> npfloat \<Rightarrow> npfloat" where
  "np_maximum a b = (if a = NaN \<or> b = NaN then NaN else if np_less a b then b else a)"

definition np_clip :: "npfloat \<Rightarrow> npfloat \<Rightarrow> npfloat \<Rightarrow> npfloat" where
  "np_clip x lo hi = np_minimum (np_maximum x lo) hi"

primrec np_sum :: "npfloat list \<Rightarrow> npfloat" where
  "np_sum [] = Fin 0"
| "np_sum (x # xs) = np_add x (np_sum xs)"

text \<open>\<open>np.mean\<close> of an empty array is NaN (with a warning), not an exception.\<close>

definition np_mean :: "npfloat list \<Rightarrow> npfloat" where
  "np_mean xs = np_div (np_sum xs) (Fin (real (length xs)))"

definition np_var :: "npfloat list \<Rightarrow> npfloat" where
  "np_var xs = (let m = np_mean xs in np_mean (map (\<lambda>x. np_mul (np_sub x m) (np_sub x m)) xs))"

definition np_std :: "npfloat list \<Rightarrow> npfloat" where
  "np_std xs = np_sqrt (np_var xs)"

text \<open>\<open>np.min\<close> and \<open>np.max\<close> raise ValueError on an empty array.\<close>

fun np_min :: "npfloat list \<Rightarrow> exn + npfloat" where
  "np_min [] = Inl (ValueError ''zero-size array to reduction operation minimum which has no identity'')"
| "np_min (x # xs) = Inr (foldl np_minimum x xs)"

fun np_max :: "npfloat list \<Rightarrow> exn + npfloat" where
  "np_max [] = Inl (ValueError ''zero-size array to reduction operation maximum which has no identity'')"
| "np_max (x # xs) = Inr (foldl np_maximum x xs)"


section \<open>Arrays and the library calls\<close>

text \<open>
  An image is a height \<open>\<times>\<close> width array of three-channel pixels, represented by its list
  of rows. \<open>cv2.imread\<close> yields 8-bit BGR pixels; after \<open>preprocess_image\<close> the channels
  are floating-point numbers (always finite, as they come from bytes).
\<close>

type_synonym pixel = "real \<times> real \<times> real"
type_synonym image = "pixel list list"
type_synonym u8pixel = "8 word \<times> 8 word \<times> 8 word"
type_synonym u8image = "u8pixel list list"
type_synonym contour = "(int \<times> int) list"

definition shape0 :: "'a list list \<Rightarrow> nat" where
  "shape0 arr = length arr"

definition shape1 :: "'a list list \<Rightarrow> nat" where
  "shape1 arr = (case arr of [] \<Rightarrow> 0 | row # _ \<Rightarrow> length row)"

text \<open>
  \<open>cv2.cvtColor\<close> converts pixel by pixel with the formula of the conversion code, and
  raises on an empty array.
\<close>

definition cvtColor :: "('a \<Rightarrow> 'b) \<Rightarrow> 'a list list \<Rightarrow> exn + 'b list list" where
  "cvtColor conv src =
     (if shape0 src = 0 \<or> shape1 src = 0
      then Inl (Cv2Error ''(-215:Assertion failed) !_src.empty() in function cvtColor'')
      else Inr (map (map conv) src))"

definition bgr2rgb :: "u8pixel \<Rightarrow> u8pixel" where
  "bgr2rgb p = (case p of (b, g, r) \<Rightarrow> (r, g, b))"

text \<open>\<open>cv2.inRange\<close>: 255 where every channel lies within the bounds, 0 elsewhere.\<close>

definition inRange_pixel :: "pixel \<Rightarrow> pixel \<Rightarrow> pixel \<Rightarrow> 8 word" where
  "inRange_pixel lowerb upperb p =
     (case (p, lowerb, upperb) of ((h, s, v), (lh, ls, lv), (uh, us, uv)) \<Rightarrow>
        if lh \<le> h \<and> h \<le> uh \<and> ls \<le> s \<and> s \<le> us \<and> lv \<le> v \<and> v \<le> uv then 255 else 0)"

definition inRange :: "image \<Rightarrow> pixel \<Rightarrow> pixel \<Rightarrow> 8 word list list" where
  "inRange src lowerb upperb = map (map (inRange_pixel lowerb upperb)) src"

text \<open>
  The regression backend: a Keras model, a scikit-learn model, or none. Each carries
  the name of its class and its prediction, which may raise (an unfitted random
  forest does).
\<close>

datatype backend =
    KerasModel string "npfloat list list \<Rightarrow> exn + npfloat"
  | SklearnModel string "npfloat list list \<Rightarrow> exn + npfloat"
  | NoModel

text \<open>
  What the module takes from OpenCV beyond the above, and the analyzer's model: the
  file system behind \<open>cv2.imread\<close> (\<open>None\<close> when the file cannot be read),
  \<open>cv2.resize\<close>, the colour formulas, edge detection and contour geometry.
\<close>

record env =
  imread :: "string \<Rightarrow> u8image option"
  resize :: "u8image \<Rightarrow> nat \<times> nat \<Rightarrow> exn + u8image"
  rgb2gray :: "pixel \<Rightarrow> real"
  rgb2hsv :: "pixel \<Rightarrow> pixel"
  rgb2lab :: "pixel \<Rightarrow> pixel"
  canny :: "real list list \<Rightarrow> real \<Rightarrow> real \<Rightarrow> exn + 8 word list list"
  findContours :: "8 word list list \<Rightarrow> exn + contour list"
  contourArea :: "contour \<Rightarrow> real"
  boundingRect :: "contour \<Rightarrow> int \<times> int \<times> int \<times> int"
  model :: backend

text \<open>\<open>datetime.now()\<close> reads the clock, which then moves on.\<close>

definition datetime_now :: "nat \<Rightarrow> nat \<times> nat" where
  "datetime_now clock = (clock, Suc clock)"

section \<open>Image loading\<close>

definition normalize_pixel :: "u8pixel \<Rightarrow> pixel" where
  "normalize_pixel p = (case p of (r, g, b) \<Rightarrow> (real (unat r) / 255, real (unat g) / 255, real (unat b) / 255))"

definition preprocess_image :: "env \<Rightarrow> string \<Rightarrow> exn + image" where
  "preprocess_image e image_path =
     (case imread e image_path of
        None \<Rightarrow> Inl (ValueError (''Could not load image from '' @ image_path))
      | Some img \<Rightarrow>
          (case cvtColor bgr2rgb img of
             Inl ex \<Rightarrow> Inl ex
           | Inr image_rgb \<Rightarrow>
               (case resize e image_rgb (512, 512) of
                  Inl ex \<Rightarrow> Inl ex
                | Inr image_resized \<Rightarrow> Inr (map (map normalize_pixel) image_resized))))"

section \<open>Feature extraction\<close>

record ndvi_stats =
  ndvi_mean :: npfloat
  ndvi_std :: npfloat
  ndvi_min :: npfloat
  ndvi_max :: npfloat

record height_stats =
  height_mean :: npfloat
  height_std :: npfloat
  height_min :: npfloat
  height_max :: npfloat

definition evi_pixel :: "pixel \<Rightarrow> npfloat" where
  "evi_pixel p =
     (case p of (red, green, blue) \<Rightarrow>
        np_div (Fin (2.5 * (green - red))) (Fin (green + 6 * red - 7.5 * blue + 1)))"

definition calculate_ndvi_body :: "image \<Rightarrow> exn + ndvi_stats" where
  "calculate_ndvi_body img =
     (let evi = map evi_pixel (concat img) in
      case np_min evi of
        Inl ex \<Rightarrow> Inl ex
      | Inr mn \<Rightarrow>
          (case np_max evi of
             Inl ex \<Rightarrow> Inl ex
           | Inr mx \<Rightarrow>
               Inr \<lparr>ndvi_mean = np_mean evi, ndvi_std = np_std evi, ndvi_min = mn, ndvi_max = mx\<rparr>))"

definition ndvi_fallback :: ndvi_stats where
  "ndvi_fallback = \<lparr>ndvi_mean = Fin 0, ndvi_std = Fin 0, ndvi_min = Fin 0, ndvi_max = Fin 0\<rparr>"

definition calculate_ndvi :: "image \<Rightarrow> ndvi_stats" where
  "calculate_ndvi img = (case calculate_ndvi_body img of Inl ex \<Rightarrow> ndvi_fallback | Inr stats \<Rightarrow> stats)"

definition contour_heights :: "env \<Rightarrow> contour list \<Rightarrow> int list" where
  "contour_heights e contours =
     map (\<lambda>c. case boundingRect e c of (x, y, w, h) \<Rightarrow> h) (filter (\<lambda>c. 100 < contourArea e c) contours)"

definition estimate_vegetation_height_body :: "env \<Rightarrow> image \<Rightarrow> exn + height_stats" where
  "estimate_vegetation_height_body e img =
     (case cvtColor (rgb2gray e) img of
        Inl ex \<Rightarrow> Inl ex
      | Inr gray \<Rightarrow>
          (case canny e gray 50 150 of
             Inl ex \<Rightarrow> Inl ex
           | Inr edges \<Rightarrow>
               (case findContours e edges of
                  Inl ex \<Rightarrow> Inl ex
                | Inr contours \<Rightarrow>
                    (let hs = contour_heights e contours;
                         heights = map (\<lambda>h. Fin (real_of_int h)) (if hs = [] then [0] else hs)
                     in case np_min heights of
                          Inl ex \<Rightarrow> Inl ex
                        | Inr mn \<Rightarrow>
                            (case np_max heights of
                               Inl ex \<Rightarrow> Inl ex
                             | Inr mx \<Rightarrow>
                                 Inr \<lparr>height_mean = np_mean heights, height_std = np_std heights,
                                      height_min = mn, height_max = mx\<rparr>)))))"

definition height_fallback :: height_stats where
  "height_fallback = \<lparr>height_mean = Fin 0, height_std = Fin 0, height_min = Fin 0, height_max = Fin 0\<rparr>"

definition estimate_vegetation_height :: "env \<Rightarrow> image \<Rightarrow> height_stats" where
  "estimate_vegetation_height e img =
     (case estimate_vegetation_height_body e img of Inl ex \<Rightarrow> height_fallback | Inr stats \<Rightarrow> stats)"

definition lower_green :: pixel where
  "lower_green = (35, 40, 40)"

definition upper_green :: pixel where
  "upper_green = (85, 255, 255)"

definition calculate_canopy_cover_body :: "env \<Rightarrow> image \<Rightarrow> exn + npfloat" where
  "calculate_canopy_cover_body e img =
     (case cvtColor (rgb2hsv e) img of
        Inl ex \<Rightarrow> Inl ex
      | Inr hsv \<Rightarrow>
          (let mask = inRange hsv lower_green upper_green;
               total_pixels = shape0 mask * shape1 mask;
               vegetation_pixels = length (filter (\<lambda>m. 0 < m) (concat mask));
               canopy_cover = np_mul (np_div (Fin (real vegetation_pixels)) (Fin (real total_pixels))) (Fin 100)
           in Inr canopy_cover))"

definition calculate_canopy_cover :: "env \<Rightarrow> image \<Rightarrow> npfloat" where
  "calculate_canopy_cover e img =
     (case calculate_canopy_cover_body e img of Inl ex \<Rightarrow> Fin 0 | Inr c \<Rightarrow> c)"

definition channels :: "image \<Rightarrow> real list list" where
  "channels img =
     (let px = concat img
      in [map (\<lambda>p. case p of (a, b, c) \<Rightarrow> a) px,
          map (\<lambda>p. case p of (a, b, c) \<Rightarrow> b) px,
          map (\<lambda>p. case p of (a, b, c) \<Rightarrow> c) px])"

definition estimate_species_diversity_body :: "env \<Rightarrow> image \<Rightarrow> exn + npfloat" where
  "estimate_species_diversity_body e img =
     (case cvtColor (rgb2lab e) img of
        Inl ex \<Rightarrow> Inl ex
      | Inr lab \<Rightarrow>
          (let color_variance = map (\<lambda>ch. np_var (map Fin ch)) (channels lab);
               diversity_score = np_div (np_mean color_variance) (Fin 255)
           in Inr (np_clip diversity_score (Fin 0) (Fin 1))))"

definition estimate_species_diversity :: "env \<Rightarrow> image \<Rightarrow> npfloat" where
  "estimate_species_diversity e img =
     (case estimate_species_diversity_body e img of Inl ex \<Rightarrow> Fin 0 | Inr d \<Rightarrow> d)"


text \<open>
  The optional metadata dictionary (floats by key). \<open>metadata.get(k, d) if metadata else d\<close>
  is \<open>d\<close> for no dictionary and for an empty one, and the lookup with default otherwise.
\<close>

type_synonym metadata = "(string \<rightharpoonup> npfloat) option"

definition metadata_get :: "metadata \<Rightarrow> string \<Rightarrow> npfloat \<Rightarrow> npfloat" where
  "metadata_get md key dflt =
     (case md of None \<Rightarrow> dflt | Some m \<Rightarrow> (case m key of None \<Rightarrow> dflt | Some v \<Rightarrow> v))"

definition feature_names :: "string list" where
  "feature_names =
     [''ndvi_mean'', ''ndvi_std'', ''ndvi_min'', ''ndvi_max'',
      ''height_mean'', ''height_std'', ''height_min'', ''height_max'',
      ''density_score'', ''canopy_cover'', ''species_diversity'',
      ''moisture_index'', ''temperature'', ''salinity'']"

text \<open>
  The 1 \<open>\<times>\<close> 14 feature array is represented by its single row. Nothing in the body can
  raise here (the four sub-extractions catch their own failures and the metadata is
  typed); the handler of the source is kept.
\<close>

definition extract_features_body :: "env \<Rightarrow> image \<Rightarrow> metadata \<Rightarrow> exn + npfloat list" where
  "extract_features_body e img md =
     (let ndvi = calculate_ndvi img;
          height = estimate_vegetation_height e img;
          canopy_cover = calculate_canopy_cover e img;
          species_diversity = estimate_species_diversity e img;
          density_score = np_div canopy_cover (Fin 100);
          moisture_index = metadata_get md ''moisture_index'' (Fin 0.7);
          temperature = metadata_get md ''temperature'' (Fin 25);
          salinity = metadata_get md ''salinity'' (Fin 35)
      in Inr [ndvi_mean ndvi, ndvi_std ndvi, ndvi_min ndvi, ndvi_max ndvi,
              height_mean height, height_std height, height_min height, height_max height,
              density_score, canopy_cover, species_diversity,
              moisture_index, temperature, salinity])"

definition extract_features :: "env \<Rightarrow> image \<Rightarrow> metadata \<Rightarrow> npfloat list" where
  "extract_features e img md =
     (case extract_features_body e img md of
        Inl ex \<Rightarrow> replicate (length feature_names) (Fin 0)
      | Inr features \<Rightarrow> features)"

section \<open>Estimation\<close>

text \<open>
  \<open>StandardScaler.fit_transform\<close> of scikit-learn, on the rows of a two-dimensional
  array: an infinity in the input is rejected with ValueError; NaN entries are
  disregarded in the fit and stay NaN in the result; a column's scale is the square
  root of its variance, and a zero scale is replaced by 1.
\<close>

definition column_mean :: "npfloat list \<Rightarrow> npfloat" where
  "column_mean col = np_mean (filter (\<lambda>v. v \<noteq> NaN) col)"

definition column_scale :: "npfloat list \<Rightarrow> npfloat" where
  "column_scale col =
     (let s = np_std (filter (\<lambda>v. v \<noteq> NaN) col) in if s = Fin 0 then Fin 1 else s)"

definition scale_row :: "npfloat list list \<Rightarrow> npfloat list \<Rightarrow> npfloat list" where
  "scale_row X row =
     map (\<lambda>j. let col = map (\<lambda>r. r ! j) X
               in np_div (np_sub (row ! j) (column_mean col)) (column_scale col))
         [0..<length row]"

definition fit_transform :: "npfloat list list \<Rightarrow> exn + npfloat list list" where
  "fit_transform X =
     (if shape0 X = 0 then Inl (ValueError ''Found array with 0 sample(s) while a minimum of 1 is required by StandardScaler.'')
      else if shape1 X = 0 then Inl (ValueError ''Found array with 0 feature(s) while a minimum of 1 is required by StandardScaler.'')
      else if list_ex (\<lambda>v. v = PInf \<or> v = NInf) (concat X) then Inl (ValueError ''Input X contains infinity or a value too large for dtype(float64).'')
      else Inr (map (scale_row X) X))"

definition weights :: "real list" where
  "weights = [0.3, 0.1, 0.1, 0.2, 0.2, 0.1, 0.1, 0.2, 0.3, 0.4, 0.2, 0.1, 0.05, 0.05]"

text \<open>
  The elementwise product of two one-dimensional arrays: equal lengths, or one of them
  of length 1 (broadcast); any other pair of shapes raises ValueError.
\<close>

definition np_multiply :: "npfloat list \<Rightarrow> npfloat list \<Rightarrow> exn + npfloat list" where
  "np_multiply xs ys =
     (if length xs = length ys then Inr (map2 np_mul xs ys)
      else if length xs = 1 then Inr (map (np_mul (xs ! 0)) ys)
      else if length ys = 1 then Inr (map (\<lambda>x. np_mul x (ys ! 0)) xs)
      else Inl (ValueError ''operands could not be broadcast together''))"

definition calculate_fallback_biomass :: "npfloat list \<Rightarrow> exn + npfloat" where
  "calculate_fallback_biomass features =
     (case np_multiply features (map Fin weights) of
        Inl ex \<Rightarrow> Inl ex
      | Inr products \<Rightarrow> Inr (np_clip (np_sum products) (Fin 0.1) (Fin 50)))"

definition py_index :: "'a list \<Rightarrow> nat \<Rightarrow> exn + 'a" where
  "py_index xs i = (if i < length xs then Inr (xs ! i) else Inl (IndexError ''index out of bounds''))"

definition calculate_confidence_body :: "npfloat list \<Rightarrow> exn + npfloat" where
  "calculate_confidence_body features =
     (case py_index features 0 of
        Inl ex \<Rightarrow> Inl ex
      | Inr f0 \<Rightarrow>
          (case py_index features 4 of
             Inl ex \<Rightarrow> Inl ex
           | Inr f4 \<Rightarrow>
               (case py_index features 9 of
                  Inl ex \<Rightarrow> Inl ex
                | Inr f9 \<Rightarrow>
                    (let ndvi_quality = py_min (np_div f0 (Fin 0.5)) (Fin 1);
                         height_quality = py_min (np_div f4 (Fin 100)) (Fin 1);
                         canopy_quality = np_div f9 (Fin 100);
                         confidence = np_div (np_add (np_add ndvi_quality height_quality) canopy_quality) (Fin 3)
                     in Inr (np_clip confidence (Fin 0) (Fin 1))))))"

definition calculate_confidence :: "npfloat list \<Rightarrow> npfloat" where
  "calculate_confidence features =
     (case calculate_confidence_body features of Inl ex \<Rightarrow> Fin 0.5 | Inr c \<Rightarrow> c)"

text \<open>
  The two shapes of a per-image result. The dictionaries of the source share the keys
  \<open>image_path\<close> and \<open>timestamp\<close>; the error-tagged one is the one with the key \<open>error\<close>.
\<close>

record analysis_result =
  image_path :: string
  timestamp :: nat
  biomass_estimate_kg_m2 :: npfloat
  carbon_content_kg_m2 :: npfloat
  co2_equivalent_kg_m2 :: npfloat
  features :: "(string \<times> npfloat) list"
  confidence_score :: npfloat
  model_type :: string
  feature_count :: nat
  image_resolution :: "nat \<times> nat"

record error_result =
  error :: string
  error_image_path :: string
  error_timestamp :: nat

definition model_type_name :: "backend \<Rightarrow> string" where
  "model_type_name m =
     (case m of KerasModel name p \<Rightarrow> name | SklearnModel name p \<Rightarrow> name | NoModel \<Rightarrow> ''NoneType'')"

definition predict_biomass :: "backend \<Rightarrow> npfloat list list \<Rightarrow> npfloat list \<Rightarrow> exn + npfloat" where
  "predict_biomass m features_scaled features0 =
     (case m of
        KerasModel name p \<Rightarrow> p features_scaled
      | SklearnModel name p \<Rightarrow> p features_scaled
      | NoModel \<Rightarrow> calculate_fallback_biomass features0)"

text \<open>The body of the \<open>try\<close> block, given the reading of the clock taken for the timestamp.\<close>

definition estimate_biomass_body :: "env \<Rightarrow> string \<Rightarrow> metadata \<Rightarrow> nat \<Rightarrow> exn + analysis_result" where
  "estimate_biomass_body e path md now =
     (case preprocess_image e path of
        Inl ex \<Rightarrow> Inl ex
      | Inr img \<Rightarrow>
          (let features0 = extract_features e img md in
           case fit_transform [features0] of
             Inl ex \<Rightarrow> Inl ex
           | Inr features_scaled \<Rightarrow>
               (case predict_biomass (model e) features_scaled features0 of
                  Inl ex \<Rightarrow> Inl ex
                | Inr biomass_prediction \<Rightarrow>
                    (let carbon_content = np_mul biomass_prediction (Fin 0.47);
                         co2_equivalent = np_mul carbon_content (Fin 3.67)
                     in Inr \<lparr>image_path = path,
                             timestamp = now,
                             biomass_estimate_kg_m2 = biomass_prediction,
                             carbon_content_kg_m2 = carbon_content,
                             co2_equivalent_kg_m2 = co2_equivalent,
                             features = zip feature_names features0,
                             confidence_score = calculate_confidence features0,
                             model_type = model_type_name (model e),
                             feature_count = length feature_names,
                             image_resolution = (shape1 img, shape0 img)\<rparr>))))"

definition estimate_biomass :: "env \<Rightarrow> string \<Rightarrow> metadata \<Rightarrow> nat \<Rightarrow> (error_result + analysis_result) \<times> nat" where
  "estimate_biomass e path md clock =
     (case datetime_now clock of (now, clock') \<Rightarrow>
        (case estimate_biomass_body e path md now of
           Inl ex \<Rightarrow> (Inl \<lparr>error = exn_str ex, error_image_path = path, error_timestamp = now\<rparr>, clock')
         | Inr res \<Rightarrow> (Inr res, clock')))"

section \<open>Aggregation\<close>

record summary =
  s_mean :: npfloat
  s_std :: npfloat
  s_min :: npfloat
  s_max :: npfloat
  s_total :: npfloat

record aggregate_result =
  total_images :: nat
  valid_analyses :: nat
  biomass_summary :: summary
  carbon_summary :: summary
  co2_summary :: summary
  confidence_summary :: "npfloat \<times> npfloat"
  individual_results :: "analysis_result list"
  aggregate_timestamp :: nat

definition summarize :: "npfloat list \<Rightarrow> exn + summary" where
  "summarize vs =
     (case np_min vs of
        Inl ex \<Rightarrow> Inl ex
      | Inr mn \<Rightarrow>
          (case np_max vs of
             Inl ex \<Rightarrow> Inl ex
           | Inr mx \<Rightarrow>
               Inr \<lparr>s_mean = np_mean vs, s_std = np_std vs, s_min = mn, s_max = mx, s_total = np_sum vs\<rparr>))"

text \<open>The \<open>for\<close> loop: the results so far and the clock are the state.\<close>

fun analyze_loop :: "env \<Rightarrow> metadata \<Rightarrow> string list \<Rightarrow> analysis_result list \<Rightarrow> nat \<Rightarrow> analysis_result list \<times> nat" where
  "analyze_loop e md [] results clock = (results, clock)"
| "analyze_loop e md (path # paths) results clock =
     (case estimate_biomass e path md clock of
        (Inl err, clock') \<Rightarrow> analyze_loop e md paths results clock'
      | (Inr res, clock') \<Rightarrow> analyze_loop e md paths (results @ [res]) clock')"

definition aggregate_body :: "nat \<Rightarrow> analysis_result list \<Rightarrow> nat \<Rightarrow> exn + aggregate_result" where
  "aggregate_body n results now =
     (case summarize (map biomass_estimate_kg_m2 results) of
        Inl ex \<Rightarrow> Inl ex
      | Inr bs \<Rightarrow>
          (case summarize (map carbon_content_kg_m2 results) of
             Inl ex \<Rightarrow> Inl ex
           | Inr cs \<Rightarrow>
               (case summarize (map co2_equivalent_kg_m2 results) of
                  Inl ex \<Rightarrow> Inl ex
                | Inr os \<Rightarrow>
                    Inr \<lparr>total_images = n,
                         valid_analyses = length results,
                         biomass_summary = bs,
                         carbon_summary = cs,
                         co2_summary = os,
                         confidence_summary =
                           (np_mean (map confidence_score results), np_std (map confidence_score results)),
                         individual_results = results,
                         aggregate_timestamp = now\<rparr>)))"

text \<open>The aggregate, or the dictionary \<open>{'error': message}\<close> as \<open>Inl message\<close>.\<close>

definition analyze_multiple_images :: "env \<Rightarrow> string list \<Rightarrow> metadata \<Rightarrow> nat \<Rightarrow> (string + aggregate_result) \<times> nat" where
  "analyze_multiple_images e image_paths md clock =
     (case analyze_loop e md image_paths [] clock of (results, clock') \<Rightarrow>
        if results = [] then (Inl ''No valid analysis results'', clock')
        else (case datetime_now clock' of (now, clock'') \<Rightarrow>
                (case aggregate_body (length image_paths) results now of
                   Inl ex \<Rightarrow> (Inl (exn_str ex), clock'')
                 | Inr agg \<Rightarrow> (Inr agg, clock''))))"


section \<open>Vocabulary of the statements\<close>

text \<open>A feature value that is not negative: a real number from 0 on, or plus infinity.\<close>

fun is_nonneg :: "npfloat \<Rightarrow> bool" where
  "is_nonneg (Fin a) = (0 \<le> a)"
| "is_nonneg PInf = True"
| "is_nonneg _ = False"

text \<open>The canonical image: 512 rows of 512 pixels, every channel in the unit interval.\<close>

definition unit_pixel :: "pixel \<Rightarrow> bool" where
  "unit_pixel p = (case p of (r, g, b) \<Rightarrow> 0 \<le> r \<and> r \<le> 1 \<and> 0 \<le> g \<and> g \<le> 1 \<and> 0 \<le> b \<and> b \<le> 1)"

definition canonical :: "image \<Rightarrow> bool" where
  "canonical img = (length img = 512 \<and> list_all (\<lambda>row. length row = 512 \<and> list_all unit_pixel row) img)"

text \<open>
  The per-image results of a batch in input order, each taken at the clock the
  previous call left, and the valid ones among them.
\<close>

fun per_image_results :: "env \<Rightarrow> metadata \<Rightarrow> string list \<Rightarrow> nat \<Rightarrow> (error_result + analysis_result) list" where
  "per_image_results e md [] clock = []"
| "per_image_results e md (path # paths) clock =
     fst (estimate_biomass e path md clock) # per_image_results e md paths (snd (estimate_biomass e path md clock))"

fun valid_results :: "(error_result + analysis_result) list \<Rightarrow> analysis_result list" where
  "valid_results [] = []"
| "valid_results (Inl err # rs) = valid_results rs"
| "valid_results (Inr res # rs) = res # valid_results rs"

section \<open>A sample environment\<close>

text \<open>
  A small stand-in for the libraries, on which the statements are run: one readable
  file, a uniform green picture; \<open>resize\<close> spreads the top-left pixel over the canvas
  (what resizing a uniform picture gives); OpenCV's formulas for grey and HSV on
  floating-point pixels, and the identity in place of the Lab formula; an edge
  detector that rejects floating-point input, as \<open>cv2.Canny\<close> does; a fitted backend
  that predicts 2.
\<close>

definition sample_imread :: "string \<Rightarrow> u8image option" where
  "sample_imread path = (if path = ''ok.jpg'' then Some [[(0, 255, 0)]] else None)"

definition sample_resize :: "u8image \<Rightarrow> nat \<times> nat \<Rightarrow> exn + u8image" where
  "sample_resize src dsize = (case dsize of (w, h) \<Rightarrow> Inr (replicate h (replicate w (src ! 0 ! 0))))"

definition opencv_rgb2gray :: "pixel \<Rightarrow> real" where
  "opencv_rgb2gray p = (case p of (r, g, b) \<Rightarrow> 0.299 * r + 0.587 * g + 0.114 * b)"

definition opencv_rgb2hsv :: "pixel \<Rightarrow> pixel" where
  "opencv_rgb2hsv p =
     (case p of (r, g, b) \<Rightarrow>
        let v = max r (max g b);
            m = min r (min g b);
            s = (if v = 0 then 0 else (v - m) / v);
            h = (if v = m then 0
                 else if v = r then 60 * (g - b) / (v - m)
                 else if v = g then 120 + 60 * (b - r) / (v - m)
                 else 240 + 60 * (r - g) / (v - m))
        in (if h < 0 then h + 360 else h, s, v))"

definition sample_model :: "npfloat list list \<Rightarrow> exn + npfloat" where
  "sample_model X = Inr (Fin 2)"

definition sample_env :: env where
  "sample_env =
     \<lparr>imread = sample_imread,
      resize = sample_resize,
      rgb2gray = opencv_rgb2gray,
      rgb2hsv = opencv_rgb2hsv,
      rgb2lab = (\<lambda>p. p),
      canny = (\<lambda>gray t1 t2. Inl (Cv2Error ''(-215:Assertion failed) _src.depth() == CV_8U in function Canny'')),
      findContours = (\<lambda>edges. Inr []),
      contourArea = (\<lambda>c. 0),
      boundingRect = (\<lambda>c. (0, 0, 0, 0)),
      model = SklearnModel ''RandomForestRegressor'' sample_model\<rparr>"

definition uniform_image :: "pixel \<Rightarrow> image" where
  "uniform_image p = replicate 512 (replicate 512 p)"

definition sample_features :: "npfloat list" where
  "sample_features =
     [Fin (5 / 4), Fin 0, Fin (5 / 4), Fin (5 / 4), Fin 0, Fin 0, Fin 0, Fin 0,
      Fin 0, Fin 0, Fin 0, Fin (7 / 10), Fin 25, Fin 35]"

definition sample_result :: "nat \<Rightarrow> analysis_result" where
  "sample_result now =
     \<lparr>image_path = ''ok.jpg'',
      timestamp = now,
      biomass_estimate_kg_m2 = Fin 2,
      carbon_content_kg_m2 = Fin (47 / 50),
      co2_equivalent_kg_m2 = Fin (17249 / 5000),
      features = zip feature_names sample_features,
      confidence_score = Fin (1 / 3),
      model_type = ''RandomForestRegressor'',
      feature_count = 14,
      image_resolution = (512, 512)\<rparr>"

text \<open>
  The same environment with a backend that returns the first entry of the array it is
  handed, so that the prediction shows what the backend received.
\<close>

definition echo_model :: "npfloat list list \<Rightarrow> exn + npfloat" where
  "echo_model X =
     (case X of
        [] \<Rightarrow> Inl (IndexError ''index 0 is out of bounds'')
      | row # _ \<Rightarrow> (case row of [] \<Rightarrow> Inl (IndexError ''index 0 is out of bounds'') | v # _ \<Rightarrow> Inr v))"

definition echo_env :: env where
  "echo_env = sample_env\<lparr>model := SklearnModel ''Echo'' echo_model\<rparr>"

section \<open>Facts about the arithmetic\<close>

lemma np_clip_Fin: "lo \<le> hi \<Longrightarrow> np_clip (Fin a) (Fin lo) (Fin hi) = Fin (min hi (max a lo))"
  by (auto simp: np_clip_def np_maximum_def np_minimum_def)

lemma np_clip_PInf: "np_clip PInf (Fin lo) (Fin hi) = Fin hi"
  by (simp add: np_clip_def np_maximum_def np_minimum_def)

lemma np_clip_NInf: "lo \<le> hi \<Longrightarrow> np_clip NInf (Fin lo) (Fin hi) = Fin lo"
  by (simp add: np_clip_def np_maximum_def np_minimum_def)

lemma np_clip_bounds:
  assumes "lo \<le> hi" "x \<noteq> NaN"
  shows "\<exists>c. np_clip x (Fin lo) (Fin hi) = Fin c \<and> lo \<le> c \<and> c \<le> hi"
  using assms by (cases x) (auto simp: np_clip_Fin np_clip_PInf np_clip_NInf)

lemma np_add_nonneg: "is_nonneg a \<Longrightarrow> is_nonneg b \<Longrightarrow> is_nonneg (np_add a b)"
  by (cases a; cases b) auto

lemma np_sum_nonneg: "list_all is_nonneg xs \<Longrightarrow> is_nonneg (np_sum xs)"
  by (induction xs) (auto simp: np_add_nonneg)

lemma np_mul_nonneg: "is_nonneg a \<Longrightarrow> 0 < w \<Longrightarrow> is_nonneg (np_mul a (Fin w))"
  by (cases a) (auto simp: signed_inf_def)

lemma np_sum_Fin: "np_sum (map Fin xs) = Fin (sum_list xs)"
  by (induction xs) auto

lemma map2_nonneg:
  "list_all is_nonneg xs \<Longrightarrow> list_all (\<lambda>w. 0 < w) ws \<Longrightarrow> list_all is_nonneg (map2 np_mul xs (map Fin ws))"
proof (induction xs arbitrary: ws)
  case Nil
  then show ?case by simp
next
  case (Cons x xs)
  then show ?case by (cases ws) (auto simp: np_mul_nonneg)
qed

lemma map2_Fin: "map2 np_mul (map Fin xs) (map Fin ws) = map Fin (map2 (*) xs ws)"
proof (induction xs arbitrary: ws)
  case Nil
  then show ?case by simp
next
  case (Cons x xs)
  then show ?case by (cases ws) auto
qed

lemma weights_pos: "list_all (\<lambda>w. 0 < w) weights"
  by (simp add: weights_def)

lemma length_weights: "length weights = 14"
  by (simp add: weights_def)

lemma is_fin_nth: "list_all is_fin xs \<Longrightarrow> i < length xs \<Longrightarrow> \<exists>a. xs ! i = Fin a"
  by (metis is_fin.elims(2) list_all_length)

lemma py_min_Fin: "py_min (Fin a) (Fin b) = Fin (min a b)"
  by (auto simp: py_min_def)

section \<open>Uniform arrays\<close>

text \<open>
  The statistics of an array all of whose entries are equal, and the vegetation index
  of a picture of one colour.
\<close>

lemma concat_replicate_replicate: "concat (replicate h (replicate w p)) = replicate (h * w) p"
  by (induction h) (simp_all add: replicate_add)

lemma np_sum_replicate_Fin: "np_sum (replicate n (Fin a)) = Fin (real n * a)"
  by (induction n) (simp_all add: algebra_simps)

lemma np_sum_replicate_PInf: "np_sum (replicate (Suc n) PInf) = PInf"
  by (induction n) simp_all

lemma np_sum_replicate_NaN: "0 < n \<Longrightarrow> np_sum (replicate n NaN) = NaN"
  by (cases n) auto

lemma np_mean_replicate_Fin: "0 < n \<Longrightarrow> np_mean (replicate n (Fin a)) = Fin a"
  by (simp add: np_mean_def np_sum_replicate_Fin)

lemma np_mean_replicate_PInf: "0 < n \<Longrightarrow> np_mean (replicate n PInf) = PInf"
  by (cases n) (simp_all add: np_mean_def np_sum_replicate_PInf signed_inf_def del: replicate.simps)

lemma np_mean_replicate_NaN: "0 < n \<Longrightarrow> np_mean (replicate n NaN) = NaN"
  by (simp add: np_mean_def np_sum_replicate_NaN)

lemma np_std_replicate_Fin: "0 < n \<Longrightarrow> np_std (replicate n (Fin a)) = Fin 0"
  by (simp add: np_std_def np_var_def np_mean_replicate_Fin np_sub_def)

lemma np_std_replicate_PInf: "0 < n \<Longrightarrow> np_std (replicate n PInf) = NaN"
  by (simp add: np_std_def np_var_def np_mean_replicate_PInf np_mean_replicate_NaN np_sub_def)

lemma np_minimum_idem: "np_minimum x x = x"
  by (cases x) (simp_all add: np_minimum_def)

lemma np_maximum_idem: "np_maximum x x = x"
  by (cases x) (simp_all add: np_maximum_def)

lemma foldl_np_minimum_replicate: "foldl np_minimum x (replicate n x) = x"
  by (induction n) (simp_all add: np_minimum_idem)

lemma foldl_np_maximum_replicate: "foldl np_maximum x (replicate n x) = x"
  by (induction n) (simp_all add: np_maximum_idem)

lemma np_min_replicate: "0 < n \<Longrightarrow> np_min (replicate n x) = Inr x"
  by (cases n) (simp_all add: foldl_np_minimum_replicate)

lemma np_max_replicate: "0 < n \<Longrightarrow> np_max (replicate n x) = Inr x"
  by (cases n) (simp_all add: foldl_np_maximum_replicate)

lemma calculate_ndvi_uniform_Fin:
  "evi_pixel p = Fin a \<Longrightarrow>
   calculate_ndvi (uniform_image p) = \<lparr>ndvi_mean = Fin a, ndvi_std = Fin 0, ndvi_min = Fin a, ndvi_max = Fin a\<rparr>"
  by (simp add: calculate_ndvi_def calculate_ndvi_body_def uniform_image_def concat_replicate_replicate
      np_mean_replicate_Fin np_std_replicate_Fin np_min_replicate np_max_replicate)

lemma calculate_ndvi_uniform_PInf:
  "evi_pixel p = PInf \<Longrightarrow>
   calculate_ndvi (uniform_image p) = \<lparr>ndvi_mean = PInf, ndvi_std = NaN, ndvi_min = PInf, ndvi_max = PInf\<rparr>"
  by (simp add: calculate_ndvi_def calculate_ndvi_body_def uniform_image_def concat_replicate_replicate
      np_mean_replicate_PInf np_std_replicate_PInf np_min_replicate np_max_replicate)

section \<open>The scaler on a single row\<close>

lemma map_const_replicate: "(\<And>x. x \<in> set xs \<Longrightarrow> f x = c) \<Longrightarrow> map f xs = replicate (length xs) c"
  by (induction xs) auto

lemma np_mean_single: "np_mean [Fin a] = Fin a"
  by (simp add: np_mean_def)

lemma np_std_single: "np_std [Fin a] = Fin 0"
  by (simp add: np_std_def np_var_def np_mean_def np_sub_def)

lemma scale_single_finite: "np_div (np_sub (Fin a) (column_mean [Fin a])) (column_scale [Fin a]) = Fin 0"
  by (simp add: column_mean_def column_scale_def np_mean_single np_std_single np_sub_def)

lemma is_fin_not_inf: "list_all is_fin fs \<Longrightarrow> \<not> list_ex (\<lambda>v. v = PInf \<or> v = NInf) fs"
  by (induction fs) auto

lemma fit_transform_one_row:
  assumes "list_all is_fin fs" and "fs \<noteq> []"
  shows "fit_transform [fs] = Inr [replicate (length fs) (Fin 0)]"
proof -
  have "scale_row [fs] fs = replicate (length fs) (Fin 0)"
  proof -
    have "(let col = map (\<lambda>r. r ! j) [fs] in np_div (np_sub (fs ! j) (column_mean col)) (column_scale col)) = Fin 0"
      if "j \<in> set [0..<length fs]" for j
    proof -
      from that assms(1) obtain a where "fs ! j = Fin a"
        using is_fin_nth [of fs j] by auto
      then show ?thesis by (simp add: scale_single_finite)
    qed
    then have "scale_row [fs] fs = replicate (length [0..<length fs]) (Fin 0)"
      unfolding scale_row_def by (rule map_const_replicate)
    then show ?thesis by simp
  qed
  moreover have "shape1 [fs] \<noteq> 0" using assms(2) by (simp add: shape1_def)
  ultimately show ?thesis
    using is_fin_not_inf [OF assms(1)] by (simp add: fit_transform_def shape0_def)
qed

lemma length_extract_features: "length (extract_features e img md) = 14"
  by (simp add: extract_features_def extract_features_body_def Let_def)

lemma upt_14: "[0..<14] = [0, 1, 2, 3, 4, 5, 6, 7, 8, 9, 10, 11, 12, 13]"
  by code_simp

section \<open>The sample environment, evaluated\<close>

lemma shape_replicate: "shape0 (replicate (Suc h) (replicate w p)) = Suc h" "shape1 (replicate (Suc h) (replicate w p)) = w"
  by (simp_all add: shape0_def shape1_def)

lemma shape_canvas: "shape0 (replicate 512 (replicate 512 p)) = 512" "shape1 (replicate 512 (replicate 512 p)) = 512"
proof -
  have "replicate 512 (replicate 512 p) = replicate (Suc 511) (replicate 512 p)" by simp
  then show "shape0 (replicate 512 (replicate 512 p)) = 512" "shape1 (replicate 512 (replicate 512 p)) = 512"
    by (simp_all only: shape_replicate)
qed

lemma shape_uniform_image: "shape0 (uniform_image p) = 512" "shape1 (uniform_image p) = 512"
  by (simp_all add: uniform_image_def shape_canvas)

lemma cvtColor_replicate:
  "0 < h \<Longrightarrow> 0 < w \<Longrightarrow> cvtColor conv (replicate h (replicate w p)) = Inr (replicate h (replicate w (conv p)))"
  by (cases h) (simp_all add: cvtColor_def shape0_def shape1_def)

lemma cvtColor_uniform_image: "cvtColor conv (uniform_image p) = Inr (replicate 512 (replicate 512 (conv p)))"
  by (simp add: uniform_image_def cvtColor_replicate)

lemma preprocess_sample_ok: "preprocess_image sample_env ''ok.jpg'' = Inr (uniform_image (0, 1, 0))"
  by (simp add: preprocess_image_def sample_env_def sample_imread_def sample_resize_def cvtColor_def
      shape0_def shape1_def bgr2rgb_def normalize_pixel_def uniform_image_def)

lemma preprocess_sample_bad:
  "path \<noteq> ''ok.jpg'' \<Longrightarrow> preprocess_image sample_env path = Inl (ValueError (''Could not load image from '' @ path))"
  by (simp add: preprocess_image_def sample_env_def sample_imread_def)

lemma height_sample: "estimate_vegetation_height sample_env (uniform_image p) = height_fallback"
  by (simp add: estimate_vegetation_height_def estimate_vegetation_height_body_def cvtColor_uniform_image sample_env_def)

lemma canopy_sample: "calculate_canopy_cover sample_env (uniform_image (0, 1, 0)) = Fin 0"
proof -
  have hsv: "opencv_rgb2hsv (0, 1, 0) = (120, 1, 1)"
    by (simp add: opencv_rgb2hsv_def Let_def)
  have mask: "inRange (replicate 512 (replicate 512 (120, 1, 1))) lower_green upper_green = replicate 512 (replicate 512 0)"
    by (simp add: inRange_def inRange_pixel_def lower_green_def upper_green_def)
  have "calculate_canopy_cover_body sample_env (uniform_image (0, 1, 0)) =
          Inr (np_mul (np_div (Fin (real (length (filter (\<lambda>m. 0 < m) (replicate (512 * 512) (0::8 word))))))
                 (Fin (real (shape0 (replicate 512 (replicate 512 (0::8 word))) * shape1 (replicate 512 (replicate 512 (0::8 word))))))) (Fin 100))"
    by (simp add: calculate_canopy_cover_body_def sample_env_def cvtColor_uniform_image hsv mask
        concat_replicate_replicate Let_def)
  also have "\<dots> = Inr (Fin 0)"
    by (simp add: shape_canvas)
  finally show ?thesis by (simp add: calculate_canopy_cover_def)
qed

lemma diversity_sample: "estimate_species_diversity sample_env (uniform_image p) = Fin 0"
proof -
  obtain a b c where p: "p = (a, b, c)" by (cases p) auto
  have "channels (replicate 512 (replicate 512 p)) = [replicate (512 * 512) a, replicate (512 * 512) b, replicate (512 * 512) c]"
    by (simp add: channels_def concat_replicate_replicate p)
  moreover have "np_var (replicate (512 * 512) (Fin x)) = Fin 0" for x
    by (simp add: np_var_def np_mean_replicate_Fin np_sub_def)
  ultimately show ?thesis
    by (simp add: estimate_species_diversity_def estimate_species_diversity_body_def cvtColor_uniform_image
        sample_env_def np_mean_def np_clip_Fin)
qed

lemma ndvi_sample:
  "calculate_ndvi (uniform_image (0, 1, 0)) =
     \<lparr>ndvi_mean = Fin (5 / 4), ndvi_std = Fin 0, ndvi_min = Fin (5 / 4), ndvi_max = Fin (5 / 4)\<rparr>"
  by (rule calculate_ndvi_uniform_Fin) (simp add: evi_pixel_def)

lemma extract_features_sample:
  "extract_features sample_env (uniform_image (0, 1, 0)) md =
     [Fin (5 / 4), Fin 0, Fin (5 / 4), Fin (5 / 4), Fin 0, Fin 0, Fin 0, Fin 0, Fin 0, Fin 0, Fin 0,
      metadata_get md ''moisture_index'' (Fin (7 / 10)),
      metadata_get md ''temperature'' (Fin 25),
      metadata_get md ''salinity'' (Fin 35)]"
  by (simp add: extract_features_def extract_features_body_def ndvi_sample height_sample canopy_sample
      diversity_sample height_fallback_def Let_def)

lemma extract_features_sample_None: "extract_features sample_env (uniform_image (0, 1, 0)) None = sample_features"
  by (simp add: extract_features_sample metadata_get_def sample_features_def)

lemma confidence_sample: "calculate_confidence sample_features = Fin (1 / 3)"
  by (simp add: calculate_confidence_def calculate_confidence_body_def py_index_def sample_features_def
      py_min_Fin np_clip_Fin)

lemma length_sample_features: "length sample_features = 14"
  by (simp add: sample_features_def)

lemma fit_transform_sample: "fit_transform [sample_features] = Inr [replicate 14 (Fin 0)]"
proof -
  have "list_all is_fin sample_features" "sample_features \<noteq> []"
    by (simp_all add: sample_features_def)
  from fit_transform_one_row [OF this] show ?thesis
    by (simp only: length_sample_features)
qed

lemma length_feature_names: "length feature_names = 14"
  by (simp add: feature_names_def)

lemma estimate_biomass_body_sample_ok:
  "estimate_biomass_body sample_env ''ok.jpg'' None now = Inr (sample_result now)"
proof -
  have m: "model sample_env = SklearnModel ''RandomForestRegressor'' sample_model"
    by (simp add: sample_env_def)
  show ?thesis
    by (simp add: estimate_biomass_body_def preprocess_sample_ok extract_features_sample_None
        fit_transform_sample m predict_biomass_def sample_model_def confidence_sample
        sample_result_def model_type_name_def shape_uniform_image length_feature_names)
qed

lemma estimate_biomass_sample_ok:
  "estimate_biomass sample_env ''ok.jpg'' None clock = (Inr (sample_result clock), Suc clock)"
  by (simp add: estimate_biomass_def datetime_now_def estimate_biomass_body_sample_ok)

lemma estimate_biomass_sample_bad:
  "path \<noteq> ''ok.jpg'' \<Longrightarrow>
   estimate_biomass sample_env path md clock =
     (Inl \<lparr>error = ''Could not load image from '' @ path, error_image_path = path, error_timestamp = clock\<rparr>,
      Suc clock)"
  by (simp add: estimate_biomass_def datetime_now_def estimate_biomass_body_def preprocess_sample_bad)

section \<open>One image\<close>

lemma estimate_biomass_body_derived:
  assumes "estimate_biomass_body e path md now = Inr res"
  shows "carbon_content_kg_m2 res = np_mul (biomass_estimate_kg_m2 res) (Fin (47 / 100))
       \<and> co2_equivalent_kg_m2 res = np_mul (carbon_content_kg_m2 res) (Fin (367 / 100))
       \<and> image_path res = path \<and> timestamp res = now"
  using assms
  by (auto simp: estimate_biomass_body_def Let_def split: sum.splits)

lemma estimate_biomass_Inr:
  "estimate_biomass e path md clock = (Inr res, clock') \<Longrightarrow> estimate_biomass_body e path md clock = Inr res"
  by (auto simp: estimate_biomass_def datetime_now_def split: sum.splits)

lemma snd_estimate_biomass: "snd (estimate_biomass e path md clock) = Suc clock"
  by (simp add: estimate_biomass_def datetime_now_def split: sum.splits)

lemma estimate_biomass_unreadable:
  "imread e path = None \<Longrightarrow>
   estimate_biomass e path md clock =
     (Inl \<lparr>error = ''Could not load image from '' @ path, error_image_path = path, error_timestamp = clock\<rparr>,
      Suc clock)"
  by (simp add: estimate_biomass_def datetime_now_def estimate_biomass_body_def preprocess_image_def)

lemma preprocess_image_model: "preprocess_image (e\<lparr>model := m\<rparr>) path = preprocess_image e path"
  by (simp add: preprocess_image_def cong: option.case_cong sum.case_cong)

lemma contour_heights_model: "contour_heights (e\<lparr>model := m\<rparr>) cs = contour_heights e cs"
  by (simp add: contour_heights_def)

lemma estimate_vegetation_height_model:
  "estimate_vegetation_height (e\<lparr>model := m\<rparr>) img = estimate_vegetation_height e img"
  by (simp add: estimate_vegetation_height_def estimate_vegetation_height_body_def contour_heights_model
      cong: sum.case_cong)

lemma calculate_canopy_cover_model:
  "calculate_canopy_cover (e\<lparr>model := m\<rparr>) img = calculate_canopy_cover e img"
  by (simp add: calculate_canopy_cover_def calculate_canopy_cover_body_def)

lemma estimate_species_diversity_model:
  "estimate_species_diversity (e\<lparr>model := m\<rparr>) img = estimate_species_diversity e img"
  by (simp add: estimate_species_diversity_def estimate_species_diversity_body_def)

lemma extract_features_model: "extract_features (e\<lparr>model := m\<rparr>) img md = extract_features e img md"
  by (simp add: extract_features_def extract_features_body_def estimate_vegetation_height_model
      calculate_canopy_cover_model estimate_species_diversity_model)

lemma estimate_biomass_body_scaled:
  assumes "preprocess_image e path = Inr img"
    and "fit_transform [extract_features e img md] = Inr X"
  shows "estimate_biomass_body e path md now =
        (case predict_biomass (model e) X (extract_features e img md) of
           Inl ex \<Rightarrow> Inl ex
         | Inr biomass_prediction \<Rightarrow>
             Inr \<lparr>image_path = path,
                  timestamp = now,
                  biomass_estimate_kg_m2 = biomass_prediction,
                  carbon_content_kg_m2 = np_mul biomass_prediction (Fin (47 / 100)),
                  co2_equivalent_kg_m2 = np_mul (np_mul biomass_prediction (Fin (47 / 100))) (Fin (367 / 100)),
                  features = zip feature_names (extract_features e img md),
                  confidence_score = calculate_confidence (extract_features e img md),
                  model_type = model_type_name (model e),
                  feature_count = length feature_names,
                  image_resolution = (shape1 img, shape0 img)\<rparr>)"
  using assms by (simp add: estimate_biomass_body_def Let_def split: sum.splits)

section \<open>The batch loop\<close>

text \<open>
  The loop returns its accumulator extended by the valid per-image results, in
  input order, and has read the clock once for each path.
\<close>

lemma analyze_loop_eq:
  "analyze_loop e md paths acc clock =
     (acc @ valid_results (per_image_results e md paths clock), clock + length paths)"
proof (induction paths arbitrary: acc clock)
  case Nil
  then show ?case by simp
next
  case (Cons path paths)
  obtain r c where rc: "estimate_biomass e path md clock = (r, c)"
    by (cases "estimate_biomass e path md clock") auto
  with snd_estimate_biomass [of e path md clock] have c: "c = Suc clock" by simp
  show ?case
    using rc c Cons.IH by (cases r) simp_all
qed

lemma length_per_image_results: "length (per_image_results e md paths clock) = length paths"
  by (induction paths arbitrary: clock) simp_all

lemma summarize_nonempty:
  "vs \<noteq> [] \<Longrightarrow> \<exists>mn mx. np_min vs = Inr mn \<and> np_max vs = Inr mx
      \<and> summarize vs = Inr \<lparr>s_mean = np_mean vs, s_std = np_std vs, s_min = mn, s_max = mx, s_total = np_sum vs\<rparr>"
  by (cases vs) (simp_all add: summarize_def)

lemma aggregate_body_nonempty:
  assumes "results \<noteq> []"
  shows "\<exists>bs cs os. summarize (map biomass_estimate_kg_m2 results) = Inr bs
      \<and> summarize (map carbon_content_kg_m2 results) = Inr cs
      \<and> summarize (map co2_equivalent_kg_m2 results) = Inr os
      \<and> aggregate_body n results now =
          Inr \<lparr>total_images = n, valid_analyses = length results, biomass_summary = bs,
               carbon_summary = cs, co2_summary = os,
               confidence_summary = (np_mean (map confidence_score results), np_std (map confidence_score results)),
               individual_results = results, aggregate_timestamp = now\<rparr>"
proof -
  from assms obtain bs where bs: "summarize (map biomass_estimate_kg_m2 results) = Inr bs"
    using summarize_nonempty [of "map biomass_estimate_kg_m2 results"] by auto
  from assms obtain cs where cs: "summarize (map carbon_content_kg_m2 results) = Inr cs"
    using summarize_nonempty [of "map carbon_content_kg_m2 results"] by auto
  from assms obtain os where os: "summarize (map co2_equivalent_kg_m2 results) = Inr os"
    using summarize_nonempty [of "map co2_equivalent_kg_m2 results"] by auto
  show ?thesis
    using bs cs os by (simp add: aggregate_body_def)
qed

lemma analyze_multiple_images_empty:
  "valid_results (per_image_results e md paths clock) = [] \<Longrightarrow>
   analyze_multiple_images e paths md clock = (Inl ''No valid analysis results'', clock + length paths)"
  by (simp add: analyze_multiple_images_def analyze_loop_eq)

lemma analyze_multiple_images_nonempty:
  assumes "valid_results (per_image_results e md paths clock) \<noteq> []"
  shows "\<exists>bs cs os. summarize (map biomass_estimate_kg_m2 (valid_results (per_image_results e md paths clock))) = Inr bs
      \<and> summarize (map carbon_content_kg_m2 (valid_results (per_image_results e md paths clock))) = Inr cs
      \<and> summarize (map co2_equivalent_kg_m2 (valid_results (per_image_results e md paths clock))) = Inr os
      \<and> analyze_multiple_images e paths md clock =
          (Inr \<lparr>total_images = length paths,
                valid_analyses = length (valid_results (per_image_results e md paths clock)),
                biomass_summary = bs, carbon_summary = cs, co2_summary = os,
                confidence_summary =
                  (np_mean (map confidence_score (valid_results (per_image_results e md paths clock))),
                   np_std (map confidence_score (valid_results (per_image_results e md paths clock)))),
                individual_results = valid_results (per_image_results e md paths clock),
                aggregate_timestamp = clock + length paths\<rparr>,
           Suc (clock + length paths))"
proof -
  let ?vs = "valid_results (per_image_results e md paths clock)"
  from aggregate_body_nonempty [OF assms, of "length paths" "clock + length paths"]
  obtain bs cs os where *: "summarize (map biomass_estimate_kg_m2 ?vs) = Inr bs"
      "summarize (map carbon_content_kg_m2 ?vs) = Inr cs"
      "summarize (map co2_equivalent_kg_m2 ?vs) = Inr os"
      "aggregate_body (length paths) ?vs (clock + length paths) =
          Inr \<lparr>total_images = length paths, valid_analyses = length ?vs, biomass_summary = bs,
               carbon_summary = cs, co2_summary = os,
               confidence_summary = (np_mean (map confidence_score ?vs), np_std (map confidence_score ?vs)),
               individual_results = ?vs, aggregate_timestamp = clock + length paths\<rparr>"
    by blast
  show ?thesis
    using assms * by (simp add: analyze_multiple_images_def analyze_loop_eq datetime_now_def)
qed

lemma analyze_multiple_images_Inr:
  assumes "fst (analyze_multiple_images e paths md clock) = Inr agg"
  shows "valid_results (per_image_results e md paths clock) \<noteq> []
       \<and> total_images agg = length paths
       \<and> valid_analyses agg = length (valid_results (per_image_results e md paths clock))
       \<and> individual_results agg = valid_results (per_image_results e md paths clock)"
proof (cases "valid_results (per_image_results e md paths clock) = []")
  case True
  from analyze_multiple_images_empty [OF True] assms show ?thesis by simp
next
  case False
  from analyze_multiple_images_nonempty [OF False] assms False show ?thesis by auto
qed

lemma map_Inr_valid_results: "map Inr (valid_results rs) = filter (\<lambda>r. \<not> isl r) rs"
  by (induction rs rule: valid_results.induct) simp_all

lemma sample_batch:
  "per_image_results sample_env None [''bad.jpg'', ''ok.jpg'', ''ok.jpg''] 0 =
     [Inl \<lparr>error = ''Could not load image from bad.jpg'', error_image_path = ''bad.jpg'', error_timestamp = 0\<rparr>,
      Inr (sample_result 1), Inr (sample_result 2)]"
  by (simp add: estimate_biomass_sample_ok estimate_biomass_sample_bad numeral_2_eq_2)

lemma sample_batch_two:
  "per_image_results sample_env None [''bad.jpg'', ''ok.jpg''] 0 =
     [Inl \<lparr>error = ''Could not load image from bad.jpg'', error_image_path = ''bad.jpg'', error_timestamp = 0\<rparr>,
      Inr (sample_result 1)]"
  by (simp add: estimate_biomass_sample_ok estimate_biomass_sample_bad)

lemma sample_batch_errors:
  "per_image_results sample_env None [''bad.jpg'', ''worse.jpg''] 0 =
     [Inl \<lparr>error = ''Could not load image from bad.jpg'', error_image_path = ''bad.jpg'', error_timestamp = 0\<rparr>,
      Inl \<lparr>error = ''Could not load image from worse.jpg'', error_image_path = ''worse.jpg'', error_timestamp = 1\<rparr>]"
  by (simp add: estimate_biomass_sample_bad)

lemma valid_sample_batch:
  "valid_results (per_image_results sample_env None [''bad.jpg'', ''ok.jpg'', ''ok.jpg''] 0) =
     [sample_result 1, sample_result 2]"
  unfolding sample_batch by simp

lemma summarize_two: "summarize [Fin a, Fin a] = Inr \<lparr>s_mean = Fin a, s_std = Fin 0, s_min = Fin a, s_max = Fin a, s_total = Fin (2 * a)\<rparr>"
  by (simp add: summarize_def np_minimum_idem np_maximum_idem np_mean_def np_std_def np_var_def np_sub_def)

lemma sample_two_aggregate:
  "\<exists>agg. fst (analyze_multiple_images sample_env [''bad.jpg'', ''ok.jpg''] None 0) = Inr agg"
proof -
  have "valid_results (per_image_results sample_env None [''bad.jpg'', ''ok.jpg''] 0) \<noteq> []"
    unfolding sample_batch_two by simp
  from analyze_multiple_images_nonempty [OF this] show ?thesis by auto
qed

section \<open>Canonical images\<close>

lemma length_concat_rect: "list_all (\<lambda>row. length row = w) rows \<Longrightarrow> length (concat rows) = length rows * w"
  by (induction rows) simp_all

lemma canonical_shape:
  assumes "canonical img"
  shows "shape0 img = 512" "shape1 img = 512" "list_all (\<lambda>row. length row = 512) img"
proof -
  from assms have len: "length img = 512" and rows: "list_all (\<lambda>row. length row = 512 \<and> list_all unit_pixel row) img"
    by (simp_all add: canonical_def)
  show "shape0 img = 512" using len by (simp add: shape0_def)
  show r: "list_all (\<lambda>row. length row = 512) img"
    using rows by (simp add: list_all_iff)
  from len obtain row rest where "img = row # rest" by (cases img) auto
  with r show "shape1 img = 512" by (simp add: shape1_def)
qed

lemma shape_map_map: "shape0 (map (map f) arr) = shape0 arr" "shape1 (map (map f) arr) = shape1 arr"
  by (simp_all add: shape0_def shape1_def split: list.splits)

lemma rect_map_map: "list_all (\<lambda>row. length row = w) arr \<Longrightarrow> list_all (\<lambda>row. length row = w) (map (map f) arr)"
  by (simp add: list_all_iff)

lemma canopy_cover_canonical:
  assumes "canonical img"
  shows "\<exists>c. calculate_canopy_cover e img = Fin c \<and> 0 \<le> c \<and> c \<le> 100"
proof -
  note sh = canonical_shape [OF assms]
  let ?mask = "inRange (map (map (rgb2hsv e)) img) lower_green upper_green"
  let ?veg = "length (filter (\<lambda>m. 0 < m) (concat ?mask))"
  have cvt: "cvtColor (rgb2hsv e) img = Inr (map (map (rgb2hsv e)) img)"
    using sh(1,2) by (simp add: cvtColor_def)
  have s0: "shape0 ?mask = 512" and s1: "shape1 ?mask = 512"
    using sh(1,2) by (simp_all add: inRange_def shape_map_map)
  have "list_all (\<lambda>row. length row = 512) ?mask"
    unfolding inRange_def by (intro rect_map_map sh(3))
  from length_concat_rect [OF this] have "length (concat ?mask) = 512 * 512"
    using s0 by (simp add: shape0_def)
  moreover have "?veg \<le> length (concat ?mask)" by (rule length_filter_le)
  ultimately have veg: "?veg \<le> 512 * 512" by simp
  have "calculate_canopy_cover e img = Fin (real ?veg / (512 * 512) * 100)"
    by (simp add: calculate_canopy_cover_def calculate_canopy_cover_body_def cvt s0 s1 Let_def)
  moreover have "0 \<le> real ?veg / (512 * 512) * 100" by simp
  moreover have "real ?veg / (512 * 512) * 100 \<le> 100"
  proof -
    from veg have "real ?veg \<le> 512 * 512" by (metis of_nat_le_iff of_nat_mult of_nat_numeral)
    then show ?thesis by simp
  qed
  ultimately show ?thesis by blast
qed

lemma np_mean_Fin: "xs \<noteq> [] \<Longrightarrow> np_mean (map Fin xs) = Fin (sum_list xs / real (length xs))"
  by (simp add: np_mean_def np_sum_Fin)

lemma np_var_Fin: "xs \<noteq> [] \<Longrightarrow> \<exists>v. np_var (map Fin xs) = Fin v"
proof -
  assume ne: "xs \<noteq> []"
  let ?m = "sum_list xs / real (length xs)"
  have "map (\<lambda>x. np_mul (np_sub x (Fin ?m)) (np_sub x (Fin ?m))) (map Fin xs) = map Fin (map (\<lambda>x. (x - ?m) * (x - ?m)) xs)"
    by (simp add: np_sub_def)
  moreover have "map (\<lambda>x. (x - ?m) * (x - ?m)) xs \<noteq> []" using ne by simp
  ultimately show ?thesis
    using ne np_mean_Fin [of "map (\<lambda>x. (x - ?m) * (x - ?m)) xs"]
    by (simp add: np_var_def np_mean_Fin del: map_map)
qed

lemma species_diversity_bounds:
  "\<exists>d. estimate_species_diversity e img = Fin d \<and> 0 \<le> d \<and> d \<le> 1"
proof (cases "cvtColor (rgb2lab e) img")
  case (Inl ex)
  then show ?thesis
    by (simp add: estimate_species_diversity_def estimate_species_diversity_body_def)
next
  case (Inr lab)
  then have ne: "shape0 img \<noteq> 0" "shape1 img \<noteq> 0" and lab: "lab = map (map (rgb2lab e)) img"
    by (auto simp: cvtColor_def split: if_splits)
  from ne obtain row rest where img: "img = row # rest" "row \<noteq> []"
    by (cases img) (auto simp: shape0_def shape1_def)
  then have px: "concat lab \<noteq> []" by (simp add: lab)
  obtain v1 where v1: "np_var (map Fin (map (\<lambda>p. case p of (a, b, c) \<Rightarrow> a) (concat lab))) = Fin v1"
    using np_var_Fin [of "map (\<lambda>p. case p of (a, b, c) \<Rightarrow> a) (concat lab)"] px by auto
  obtain v2 where v2: "np_var (map Fin (map (\<lambda>p. case p of (a, b, c) \<Rightarrow> b) (concat lab))) = Fin v2"
    using np_var_Fin [of "map (\<lambda>p. case p of (a, b, c) \<Rightarrow> b) (concat lab)"] px by auto
  obtain v3 where v3: "np_var (map Fin (map (\<lambda>p. case p of (a, b, c) \<Rightarrow> c) (concat lab))) = Fin v3"
    using np_var_Fin [of "map (\<lambda>p. case p of (a, b, c) \<Rightarrow> c) (concat lab)"] px by auto
  have "map (\<lambda>ch. np_var (map Fin ch)) (channels lab) = [Fin v1, Fin v2, Fin v3]"
    using v1 v2 v3 by (simp add: channels_def Let_def)
  then have "estimate_species_diversity_body e img = Inr (np_clip (Fin ((v1 + (v2 + v3)) / 765)) (Fin 0) (Fin 1))"
    using Inr by (simp add: estimate_species_diversity_body_def np_mean_def Let_def)
  then have "estimate_species_diversity e img = Fin (min 1 (max ((v1 + (v2 + v3)) / 765) 0))"
    by (simp add: estimate_species_diversity_def np_clip_Fin)
  then show ?thesis by auto
qed

lemma canonical_uniform_green: "canonical (uniform_image (0, 1, 0))"
  by (simp add: canonical_def uniform_image_def unit_pixel_def list_all_iff)

section \<open>The claims\<close>

text \<open>
  Claim C1. Whenever \<open>estimate_biomass\<close> returns a result, its carbon content is the
  biomass prediction times 0.47 and its CO2 equivalent is that carbon content times
  3.67, whatever the backend predicted. For a finite prediction \<open>b\<close> these are the
  numbers \<open>0.47 b\<close> and \<open>3.67 (0.47 b)\<close>; for the prediction 0 both are 0.
\<close>

theorem carbon_and_co2_from_biomass:
  assumes "estimate_biomass e path md clock = (Inr res, clock')"
  shows "carbon_content_kg_m2 res = np_mul (biomass_estimate_kg_m2 res) (Fin (47 / 100))
       \<and> co2_equivalent_kg_m2 res = np_mul (carbon_content_kg_m2 res) (Fin (367 / 100))
       \<and> (\<forall>b. biomass_estimate_kg_m2 res = Fin b \<longrightarrow>
             carbon_content_kg_m2 res = Fin (b * (47 / 100))
           \<and> co2_equivalent_kg_m2 res = Fin (b * (47 / 100) * (367 / 100)))
       \<and> (biomass_estimate_kg_m2 res = Fin 0 \<longrightarrow>
             carbon_content_kg_m2 res = Fin 0 \<and> co2_equivalent_kg_m2 res = Fin 0)"
  using estimate_biomass_body_derived [OF estimate_biomass_Inr [OF assms]] by auto

text \<open>
  C1 on the sample environment: the readable picture gives the prediction 2, the
  carbon content 0.94 and the CO2 equivalent 3.4498.
\<close>

theorem carbon_and_co2_from_biomass_witness:
  "estimate_biomass sample_env ''ok.jpg'' None 0 = (Inr (sample_result 0), 1)
   \<and> biomass_estimate_kg_m2 (sample_result 0) = Fin 2
   \<and> carbon_content_kg_m2 (sample_result 0) = Fin (2 * (47 / 100))
   \<and> co2_equivalent_kg_m2 (sample_result 0) = Fin (2 * (47 / 100) * (367 / 100))"
proof -
  have run: "estimate_biomass sample_env ''ok.jpg'' None 0 = (Inr (sample_result 0), 1)"
    by (simp add: estimate_biomass_sample_ok)
  have b: "biomass_estimate_kg_m2 (sample_result 0) = Fin 2"
    by (simp add: sample_result_def)
  from carbon_and_co2_from_biomass [OF run] b show ?thesis
    using run by blast
qed

text \<open>
  Claim C2 says that the scaled array handed to the backend is all zero whatever the
  feature values. It is not: with a NaN temperature in the metadata the extracted
  vector has a NaN, which the scaler keeps, so the backend is handed a NaN.
\<close>

theorem scaled_features_keep_nan_counterexample:
  "fit_transform [extract_features sample_env (uniform_image (0, 1, 0)) (Some [''temperature'' \<mapsto> NaN])] =
     Inr [[Fin 0, Fin 0, Fin 0, Fin 0, Fin 0, Fin 0, Fin 0, Fin 0, Fin 0, Fin 0, Fin 0, Fin 0, NaN, Fin 0]]"
proof -
  have f: "extract_features sample_env (uniform_image (0, 1, 0)) (Some [''temperature'' \<mapsto> NaN]) =
     [Fin (5 / 4), Fin 0, Fin (5 / 4), Fin (5 / 4), Fin 0, Fin 0, Fin 0, Fin 0, Fin 0, Fin 0, Fin 0,
      Fin (7 / 10), NaN, Fin 35]"
    by (simp add: extract_features_sample metadata_get_def)
  have nan: "np_div (np_sub NaN (column_mean [NaN])) (column_scale [NaN]) = NaN"
    by (simp add: np_sub_def)
  show ?thesis
    unfolding f
    by (simp add: fit_transform_def shape0_def shape1_def scale_row_def upt_14 scale_single_finite nan)
qed

text \<open>
  Claim C2, amended to finite feature values. \<open>estimate_biomass\<close> fits the scaler on
  the single row extracted in this call; when the 14 extracted values are all finite,
  each column has variance zero, its scale is replaced by 1, and the scaled 1 by 14
  array is all zero. That array is what the prediction backend is handed: the body of
  \<open>estimate_biomass\<close> is the prediction on the all-zero array, wrapped into the result,
  and for a Keras or scikit-learn model the prediction is the model applied to the
  all-zero array, whatever the feature values were.
\<close>

theorem scaled_features_zero_when_finite:
  assumes "list_all is_fin (extract_features e img md)"
  shows "fit_transform [extract_features e img md] = Inr [replicate 14 (Fin 0)]
       \<and> (preprocess_image e path = Inr img \<longrightarrow>
            estimate_biomass_body e path md now =
              (case predict_biomass (model e) [replicate 14 (Fin 0)] (extract_features e img md) of
                 Inl ex \<Rightarrow> Inl ex
               | Inr biomass_prediction \<Rightarrow>
                   Inr \<lparr>image_path = path,
                        timestamp = now,
                        biomass_estimate_kg_m2 = biomass_prediction,
                        carbon_content_kg_m2 = np_mul biomass_prediction (Fin (47 / 100)),
                        co2_equivalent_kg_m2 = np_mul (np_mul biomass_prediction (Fin (47 / 100))) (Fin (367 / 100)),
                        features = zip feature_names (extract_features e img md),
                        confidence_score = calculate_confidence (extract_features e img md),
                        model_type = model_type_name (model e),
                        feature_count = length feature_names,
                        image_resolution = (shape1 img, shape0 img)\<rparr>))
       \<and> (\<forall>name p. model e = KerasModel name p \<or> model e = SklearnModel name p \<longrightarrow>
              predict_biomass (model e) [replicate 14 (Fin 0)] (extract_features e img md)
                = p [replicate 14 (Fin 0)])"
proof -
  have ne: "extract_features e img md \<noteq> []"
    using length_extract_features [of e img md] by auto
  from fit_transform_one_row [OF assms ne]
  have z: "fit_transform [extract_features e img md] = Inr [replicate 14 (Fin 0)]"
    by (simp add: length_extract_features)
  have p: "\<forall>name p. model e = KerasModel name p \<or> model e = SklearnModel name p \<longrightarrow>
              predict_biomass (model e) [replicate 14 (Fin 0)] (extract_features e img md)
                = p [replicate 14 (Fin 0)]"
    by (auto simp: predict_biomass_def)
  from z p estimate_biomass_body_scaled [OF _ z, of path now] show ?thesis
    by blast
qed

text \<open>
  The amended C2 on the sample environment with the echoing backend: the first
  feature of the uniform green canvas is 1.25, and the backend, returning the first
  entry of what it is handed, predicts 0.
\<close>

theorem scaled_features_zero_when_finite_witness:
  "list_all is_fin (extract_features echo_env (uniform_image (0, 1, 0)) None)
   \<and> preprocess_image echo_env ''ok.jpg'' = Inr (uniform_image (0, 1, 0))
   \<and> model echo_env = SklearnModel ''Echo'' echo_model
   \<and> extract_features echo_env (uniform_image (0, 1, 0)) None ! 0 = Fin (5 / 4)
   \<and> fit_transform [extract_features echo_env (uniform_image (0, 1, 0)) None] = Inr [replicate 14 (Fin 0)]
   \<and> map_sum id biomass_estimate_kg_m2 (estimate_biomass_body echo_env ''ok.jpg'' None 0) = Inr (Fin 0)"
proof -
  have f: "extract_features echo_env (uniform_image (0, 1, 0)) None = sample_features"
    by (simp add: echo_env_def extract_features_model extract_features_sample_None)
  have h: "list_all is_fin (extract_features echo_env (uniform_image (0, 1, 0)) None)"
    by (simp add: f sample_features_def)
  have pre: "preprocess_image echo_env ''ok.jpg'' = Inr (uniform_image (0, 1, 0))"
    by (simp add: echo_env_def preprocess_image_model preprocess_sample_ok)
  have m: "model echo_env = SklearnModel ''Echo'' echo_model"
    by (simp add: echo_env_def)
  have first: "extract_features echo_env (uniform_image (0, 1, 0)) None ! 0 = Fin (5 / 4)"
    by (simp add: f sample_features_def)
  have echo: "echo_model [replicate 14 (Fin 0)] = Inr (Fin 0)"
    by (simp add: echo_model_def numeral_eq_Suc)
  note t = scaled_features_zero_when_finite [OF h, of "''ok.jpg''" 0]
  from t have z: "fit_transform [extract_features echo_env (uniform_image (0, 1, 0)) None] = Inr [replicate 14 (Fin 0)]"
    by blast
  from t m have "predict_biomass (model echo_env) [replicate 14 (Fin 0)] (extract_features echo_env (uniform_image (0, 1, 0)) None)
                = echo_model [replicate 14 (Fin 0)]"
    by blast
  with t pre echo
  have "map_sum id biomass_estimate_kg_m2 (estimate_biomass_body echo_env ''ok.jpg'' None 0) = Inr (Fin 0)"
    by simp
  with h pre m first z show ?thesis by blast
qed

text \<open>
  Claim C3 says that a pixel whose EVI denominator \<open>green + 6 red - 7.5 blue + 1\<close> is
  zero sends \<open>calculate_ndvi\<close> to its zero-valued fallback. The code does not do so:
  the division yields an infinity without raising, the handler is not entered, and the
  statistics carry the infinity and a NaN. Here on the canvas of the colour
  (0, 15, 36) out of 255, whose denominator is 0 and whose numerator is positive.
\<close>

theorem ndvi_zero_denominator_not_guarded:
  "calculate_ndvi (uniform_image (0, 15 / 255, 36 / 255)) =
     \<lparr>ndvi_mean = PInf, ndvi_std = NaN, ndvi_min = PInf, ndvi_max = PInf\<rparr>
   \<and> calculate_ndvi (uniform_image (0, 15 / 255, 36 / 255)) \<noteq> ndvi_fallback"
proof -
  have "evi_pixel (0, 15 / 255, 36 / 255) = PInf"
    by (simp add: evi_pixel_def signed_inf_def)
  from calculate_ndvi_uniform_PInf [OF this] show ?thesis
    by (simp add: ndvi_fallback_def)
qed

text \<open>
  Claim C4. When the batch has at least one valid per-image result,
  \<open>analyze_multiple_images\<close> returns an aggregate whose \<open>valid_analyses\<close> is the number of
  results that are not error-tagged, and whose biomass, carbon, CO2 and confidence
  summaries are the statistics of the valid results' values only. When every per-image
  result is error-tagged (or the batch is empty) it returns the error value
  \<open>No valid analysis results\<close>.
\<close>

theorem aggregate_skips_error_results:
  "(valid_results (per_image_results e md paths clock) \<noteq> [] \<longrightarrow>
      (\<exists>agg. fst (analyze_multiple_images e paths md clock) = Inr agg
         \<and> valid_analyses agg = length (filter (\<lambda>r. \<not> isl r) (per_image_results e md paths clock))
         \<and> summarize (map biomass_estimate_kg_m2 (valid_results (per_image_results e md paths clock))) = Inr (biomass_summary agg)
         \<and> summarize (map carbon_content_kg_m2 (valid_results (per_image_results e md paths clock))) = Inr (carbon_summary agg)
         \<and> summarize (map co2_equivalent_kg_m2 (valid_results (per_image_results e md paths clock))) = Inr (co2_summary agg)
         \<and> confidence_summary agg =
             (np_mean (map confidence_score (valid_results (per_image_results e md paths clock))),
              np_std (map confidence_score (valid_results (per_image_results e md paths clock))))))
   \<and> (valid_results (per_image_results e md paths clock) = [] \<longrightarrow>
        fst (analyze_multiple_images e paths md clock) = Inl ''No valid analysis results'')"
proof (intro conjI impI)
  assume ne: "valid_results (per_image_results e md paths clock) \<noteq> []"
  have "length (filter (\<lambda>r. \<not> isl r) (per_image_results e md paths clock))
        = length (valid_results (per_image_results e md paths clock))"
    by (simp add: map_Inr_valid_results [symmetric])
  with analyze_multiple_images_nonempty [OF ne]
  show "\<exists>agg. fst (analyze_multiple_images e paths md clock) = Inr agg
         \<and> valid_analyses agg = length (filter (\<lambda>r. \<not> isl r) (per_image_results e md paths clock))
         \<and> summarize (map biomass_estimate_kg_m2 (valid_results (per_image_results e md paths clock))) = Inr (biomass_summary agg)
         \<and> summarize (map carbon_content_kg_m2 (valid_results (per_image_results e md paths clock))) = Inr (carbon_summary agg)
         \<and> summarize (map co2_equivalent_kg_m2 (valid_results (per_image_results e md paths clock))) = Inr (co2_summary agg)
         \<and> confidence_summary agg =
             (np_mean (map confidence_score (valid_results (per_image_results e md paths clock))),
              np_std (map confidence_score (valid_results (per_image_results e md paths clock))))"
    by auto
next
  assume "valid_results (per_image_results e md paths clock) = []"
  from analyze_multiple_images_empty [OF this]
  show "fst (analyze_multiple_images e paths md clock) = Inl ''No valid analysis results''"
    by simp
qed

text \<open>
  C4 on the sample environment: one unreadable and two readable pictures give
  \<open>valid_analyses = 2\<close> and the biomass statistics of the two predictions; two
  unreadable pictures give the error value.
\<close>

theorem aggregate_skips_error_results_witness:
  "valid_results (per_image_results sample_env None [''bad.jpg'', ''ok.jpg'', ''ok.jpg''] 0) \<noteq> []
   \<and> (\<exists>agg. fst (analyze_multiple_images sample_env [''bad.jpg'', ''ok.jpg'', ''ok.jpg''] None 0) = Inr agg
          \<and> valid_analyses agg = 2
          \<and> biomass_summary agg = \<lparr>s_mean = Fin 2, s_std = Fin 0, s_min = Fin 2, s_max = Fin 2, s_total = Fin 4\<rparr>)
   \<and> valid_results (per_image_results sample_env None [''bad.jpg'', ''worse.jpg''] 0) = []
   \<and> fst (analyze_multiple_images sample_env [''bad.jpg'', ''worse.jpg''] None 0) = Inl ''No valid analysis results''"
proof -
  have v: "valid_results (per_image_results sample_env None [''bad.jpg'', ''ok.jpg'', ''ok.jpg''] 0) = [sample_result 1, sample_result 2]"
    by (rule valid_sample_batch)
  have n: "valid_results (per_image_results sample_env None [''bad.jpg'', ''worse.jpg''] 0) = []"
    unfolding sample_batch_errors by simp
  have b: "summarize (map biomass_estimate_kg_m2 [sample_result 1, sample_result 2]) =
             Inr \<lparr>s_mean = Fin 2, s_std = Fin 0, s_min = Fin 2, s_max = Fin 2, s_total = Fin 4\<rparr>"
    using summarize_two [of 2] by (simp add: sample_result_def)
  from aggregate_skips_error_results [of sample_env None "[''bad.jpg'', ''ok.jpg'', ''ok.jpg'']" 0]
  obtain agg where agg: "fst (analyze_multiple_images sample_env [''bad.jpg'', ''ok.jpg'', ''ok.jpg''] None 0) = Inr agg"
      "valid_analyses agg = length (filter (\<lambda>r. \<not> isl r) (per_image_results sample_env None [''bad.jpg'', ''ok.jpg'', ''ok.jpg''] 0))"
      "summarize (map biomass_estimate_kg_m2 (valid_results (per_image_results sample_env None [''bad.jpg'', ''ok.jpg'', ''ok.jpg''] 0))) = Inr (biomass_summary agg)"
    unfolding v by auto
  have "valid_analyses agg = 2"
    using agg(2) unfolding sample_batch by simp
  moreover have "biomass_summary agg = \<lparr>s_mean = Fin 2, s_std = Fin 0, s_min = Fin 2, s_max = Fin 2, s_total = Fin 4\<rparr>"
    using agg(3) b unfolding v by simp
  moreover have "fst (analyze_multiple_images sample_env [''bad.jpg'', ''worse.jpg''] None 0) = Inl ''No valid analysis results''"
    using aggregate_skips_error_results [of sample_env None "[''bad.jpg'', ''worse.jpg'']" 0] n by simp
  ultimately show ?thesis using agg(1) v n by auto
qed

text \<open>
  Claim C5. For every environment, path, metadata and clock, \<open>estimate_biomass\<close>
  returns: either a result carrying the path and the timestamp, or, when anything in
  the body raised, an error-tagged result carrying the message of the exception, the
  path and the timestamp. In particular an image that cannot be read gives the
  error-tagged result with the message \<open>Could not load image from\<close> and the path.
\<close>

theorem estimate_biomass_never_raises:
  "((\<exists>res. estimate_biomass e path md clock = (Inr res, Suc clock)
           \<and> estimate_biomass_body e path md clock = Inr res
           \<and> image_path res = path \<and> timestamp res = clock)
    \<or> (\<exists>ex. estimate_biomass e path md clock =
              (Inl \<lparr>error = exn_str ex, error_image_path = path, error_timestamp = clock\<rparr>, Suc clock)
           \<and> estimate_biomass_body e path md clock = Inl ex))
   \<and> (imread e path = None \<longrightarrow>
        estimate_biomass e path md clock =
          (Inl \<lparr>error = ''Could not load image from '' @ path, error_image_path = path,
                error_timestamp = clock\<rparr>, Suc clock))"
proof (intro conjI impI)
  show "(\<exists>res. estimate_biomass e path md clock = (Inr res, Suc clock)
           \<and> estimate_biomass_body e path md clock = Inr res
           \<and> image_path res = path \<and> timestamp res = clock)
    \<or> (\<exists>ex. estimate_biomass e path md clock =
              (Inl \<lparr>error = exn_str ex, error_image_path = path, error_timestamp = clock\<rparr>, Suc clock)
           \<and> estimate_biomass_body e path md clock = Inl ex)"
  proof (cases "estimate_biomass_body e path md clock")
    case (Inl ex)
    then show ?thesis by (auto simp: estimate_biomass_def datetime_now_def)
  next
    case (Inr res)
    with estimate_biomass_body_derived [OF Inr] show ?thesis
      by (auto simp: estimate_biomass_def datetime_now_def)
  qed
next
  assume "imread e path = None"
  then show "estimate_biomass e path md clock =
          (Inl \<lparr>error = ''Could not load image from '' @ path, error_image_path = path,
                error_timestamp = clock\<rparr>, Suc clock)"
    by (rule estimate_biomass_unreadable)
qed

text \<open>
  C5 on the sample environment, for a file that is not there.
\<close>

theorem estimate_biomass_never_raises_witness:
  "imread sample_env ''missing.jpg'' = None
   \<and> estimate_biomass sample_env ''missing.jpg'' None 7 =
       (Inl \<lparr>error = ''Could not load image from missing.jpg'', error_image_path = ''missing.jpg'',
             error_timestamp = 7\<rparr>, 8)"
proof -
  have h: "imread sample_env ''missing.jpg'' = None"
    by (simp add: sample_env_def sample_imread_def)
  from estimate_biomass_never_raises [of sample_env "''missing.jpg''" None 7] h show ?thesis
    by simp
qed

text \<open>
  Claim C6. \<open>_calculate_fallback_biomass\<close> is a function of the feature vector alone
  (it reads neither the environment nor the clock). On every vector of 14 values that
  are not negative it returns without raising the sum of the products with the fixed
  weights, clamped: a finite number between 0.1 and 50, which for finite features
  \<open>xs\<close> is \<open>min 50 (max (\<Sum> xs\<^sub>i w\<^sub>i) 0.1)\<close>.
\<close>

theorem fallback_biomass_clamped:
  assumes "length fs = 14" and "list_all is_nonneg fs"
  shows "\<exists>b. calculate_fallback_biomass fs = Inr (Fin b) \<and> 1 / 10 \<le> b \<and> b \<le> 50
           \<and> Fin b = np_clip (np_sum (map2 np_mul fs (map Fin weights))) (Fin (1 / 10)) (Fin 50)
           \<and> (\<forall>xs. fs = map Fin xs \<longrightarrow> b = min 50 (max (sum_list (map2 (*) xs weights)) (1 / 10)))"
proof -
  let ?s = "np_sum (map2 np_mul fs (map Fin weights))"
  have eq: "calculate_fallback_biomass fs = Inr (np_clip ?s (Fin (1 / 10)) (Fin 50))"
    using assms(1) by (simp add: calculate_fallback_biomass_def np_multiply_def length_weights)
  have "is_nonneg ?s"
    by (rule np_sum_nonneg, rule map2_nonneg [OF assms(2) weights_pos])
  then have "?s \<noteq> NaN" by auto
  then obtain c where c: "np_clip ?s (Fin (1 / 10)) (Fin 50) = Fin c" "1 / 10 \<le> c" "c \<le> 50"
    using np_clip_bounds [of "1 / 10" 50 ?s] by auto
  have "c = min 50 (max (sum_list (map2 (*) xs weights)) (1 / 10))" if "fs = map Fin xs" for xs
  proof -
    have "?s = Fin (sum_list (map2 (*) xs weights))"
      using that by (simp only: map2_Fin np_sum_Fin)
    with c(1) show ?thesis by (simp add: np_clip_Fin)
  qed
  with eq c show ?thesis by auto
qed

text \<open>
  C6 on the features of the sample canvas: the weighted sum 3.82 lies in the range
  and is returned as it is.
\<close>

theorem fallback_biomass_clamped_witness:
  "length sample_features = 14 \<and> list_all is_nonneg sample_features
   \<and> calculate_fallback_biomass sample_features = Inr (Fin (191 / 50))"
proof -
  have h: "length sample_features = 14" "list_all is_nonneg sample_features"
    by (simp_all add: sample_features_def)
  have xs: "sample_features = map Fin [5 / 4, 0, 5 / 4, 5 / 4, 0, 0, 0, 0, 0, 0, 0, 7 / 10, 25, 35]"
    by (simp add: sample_features_def)
  from fallback_biomass_clamped [OF h] obtain b
    where b: "calculate_fallback_biomass sample_features = Inr (Fin b)"
      and v: "\<forall>xs. sample_features = map Fin xs \<longrightarrow> b = min 50 (max (sum_list (map2 (*) xs weights)) (1 / 10))"
    by blast
  from v xs have "b = min 50 (max (sum_list (map2 (*) [5 / 4, 0, 5 / 4, 5 / 4, 0, 0, 0, 0, 0, 0, 0, 7 / 10, 25, 35] weights)) (1 / 10))"
    by blast
  then have "b = 191 / 50" by (simp add: weights_def)
  with b h show ?thesis by simp
qed

text \<open>
  Claim C7. On every vector of 14 finite values \<open>_calculate_confidence\<close> returns,
  through its body and not through its handler, a finite number between 0 and 1; on
  the all-zero vector it returns 0; whenever the body raises it returns 0.5, and the
  body does raise on a vector of fewer than 10 values.
\<close>

theorem confidence_in_unit_interval:
  "(length fs = 14 \<and> list_all is_fin fs \<longrightarrow>
      (\<exists>c. calculate_confidence_body fs = Inr (Fin c) \<and> calculate_confidence fs = Fin c \<and> 0 \<le> c \<and> c \<le> 1))
   \<and> calculate_confidence (replicate 14 (Fin 0)) = Fin 0
   \<and> (\<forall>ex. calculate_confidence_body fs = Inl ex \<longrightarrow> calculate_confidence fs = Fin (1 / 2))
   \<and> (length fs < 10 \<longrightarrow> (\<exists>ex. calculate_confidence_body fs = Inl ex))"
proof (intro conjI impI allI)
  assume a: "length fs = 14 \<and> list_all is_fin fs"
  then obtain f0 f4 f9 where f: "fs ! 0 = Fin f0" "fs ! 4 = Fin f4" "fs ! 9 = Fin f9"
    using is_fin_nth [of fs 0] is_fin_nth [of fs 4] is_fin_nth [of fs 9] by auto
  let ?q = "(min (f0 / (1 / 2)) 1 + min (f4 / 100) 1 + f9 / 100) / 3"
  have body: "calculate_confidence_body fs = Inr (np_clip (Fin ?q) (Fin 0) (Fin 1))"
    using a f by (simp add: calculate_confidence_body_def py_index_def py_min_Fin)
  have clip: "np_clip (Fin ?q) (Fin 0) (Fin 1) = Fin (min 1 (max ?q 0))"
    by (rule np_clip_Fin) simp
  show "\<exists>c. calculate_confidence_body fs = Inr (Fin c) \<and> calculate_confidence fs = Fin c \<and> 0 \<le> c \<and> c \<le> 1"
    using body clip by (auto simp: calculate_confidence_def)
next
  show "calculate_confidence (replicate 14 (Fin 0)) = Fin 0"
    by (simp add: calculate_confidence_def calculate_confidence_body_def py_index_def py_min_Fin np_clip_Fin)
next
  fix ex assume "calculate_confidence_body fs = Inl ex"
  then show "calculate_confidence fs = Fin (1 / 2)"
    by (simp add: calculate_confidence_def)
next
  assume "length fs < 10"
  then show "\<exists>ex. calculate_confidence_body fs = Inl ex"
    by (auto simp: calculate_confidence_body_def py_index_def split: sum.splits)
qed

text \<open>
  C7 on the features of the sample canvas, and on a vector of two values, where the
  index 4 is out of bounds and the neutral 0.5 is returned.
\<close>

theorem confidence_in_unit_interval_witness:
  "length sample_features = 14 \<and> list_all is_fin sample_features
   \<and> (\<exists>c. calculate_confidence sample_features = Fin c \<and> 0 \<le> c \<and> c \<le> 1)
   \<and> length [Fin 1, Fin 2] < 10
   \<and> calculate_confidence_body [Fin 1, Fin 2] = Inl (IndexError ''index out of bounds'')
   \<and> calculate_confidence [Fin 1, Fin 2] = Fin (1 / 2)"
proof -
  have h: "length sample_features = 14 \<and> list_all is_fin sample_features"
    by (simp add: sample_features_def)
  have s: "calculate_confidence_body [Fin 1, Fin 2] = Inl (IndexError ''index out of bounds'')"
    by (simp add: calculate_confidence_body_def py_index_def)
  from confidence_in_unit_interval [of sample_features] h
  have 1: "\<exists>c. calculate_confidence sample_features = Fin c \<and> 0 \<le> c \<and> c \<le> 1" by blast
  from confidence_in_unit_interval [of "[Fin 1, Fin 2]"] s
  have 2: "calculate_confidence [Fin 1, Fin 2] = Fin (1 / 2)" by blast
  from h s 1 2 show ?thesis by simp
qed

text \<open>
  Claim C8 says that \<open>individual_results\<close> lists the result of every input image.
  It does not: the loop appends a result only when it is not error-tagged. For an
  unreadable picture followed by a readable one the aggregate lists one result, while
  the per-image results are two.
\<close>

theorem individual_results_omit_errors_counterexample:
  "map_sum id (\<lambda>agg. map Inr (individual_results agg))
       (fst (analyze_multiple_images sample_env [''bad.jpg'', ''ok.jpg''] None 0))
     = Inr [Inr (sample_result 1)]
   \<and> per_image_results sample_env None [''bad.jpg'', ''ok.jpg''] 0 =
       [Inl \<lparr>error = ''Could not load image from bad.jpg'', error_image_path = ''bad.jpg'', error_timestamp = 0\<rparr>,
        Inr (sample_result 1)]"
proof -
  have ne: "valid_results (per_image_results sample_env None [''bad.jpg'', ''ok.jpg''] 0) \<noteq> []"
    unfolding sample_batch_two by simp
  from analyze_multiple_images_nonempty [OF ne] obtain agg
    where agg: "fst (analyze_multiple_images sample_env [''bad.jpg'', ''ok.jpg''] None 0) = Inr agg" by auto
  from analyze_multiple_images_Inr [OF agg] have "individual_results agg = [sample_result 1]"
    unfolding sample_batch_two by simp
  with agg show ?thesis unfolding sample_batch_two by simp
qed

text \<open>
  Claim C8, amended. Whenever \<open>analyze_multiple_images\<close> returns an aggregate, its
  \<open>individual_results\<close> are the per-image results that are not error-tagged, all of
  them, in input order.
\<close>

theorem individual_results_are_valid_results:
  assumes "fst (analyze_multiple_images e paths md clock) = Inr agg"
  shows "map Inr (individual_results agg) = filter (\<lambda>r. \<not> isl r) (per_image_results e md paths clock)"
  using analyze_multiple_images_Inr [OF assms] by (simp add: map_Inr_valid_results)

text \<open>
  The amended C8 on the sample environment.
\<close>

theorem individual_results_are_valid_results_witness:
  "\<exists>agg. fst (analyze_multiple_images sample_env [''bad.jpg'', ''ok.jpg''] None 0) = Inr agg
     \<and> map Inr (individual_results agg) = [Inr (sample_result 1) :: error_result + analysis_result]"
proof -
  from sample_two_aggregate obtain agg
    where agg: "fst (analyze_multiple_images sample_env [''bad.jpg'', ''ok.jpg''] None 0) = Inr agg" by blast
  from individual_results_are_valid_results [OF agg]
  have "map Inr (individual_results agg) = [Inr (sample_result 1) :: error_result + analysis_result]"
    unfolding sample_batch_two by simp
  with agg show ?thesis by (intro exI [of _ agg]) simp
qed

text \<open>
  Claim C9. For every canonical image (512 rows of 512 pixels, channels in the unit
  interval) and whatever the colour formulas of the library, \<open>calculate_canopy_cover\<close>
  returns a finite number between 0 and 100 and \<open>estimate_species_diversity\<close> a finite
  number between 0 and 1.
\<close>

theorem canopy_and_diversity_ranges:
  assumes "canonical img"
  shows "(\<exists>c. calculate_canopy_cover e img = Fin c \<and> 0 \<le> c \<and> c \<le> 100)
       \<and> (\<exists>d. estimate_species_diversity e img = Fin d \<and> 0 \<le> d \<and> d \<le> 1)"
  using canopy_cover_canonical [OF assms] species_diversity_bounds by blast

text \<open>
  C9 on the uniform green canvas, which is canonical: both values are 0.
\<close>

theorem canopy_and_diversity_ranges_witness:
  "canonical (uniform_image (0, 1, 0))
   \<and> calculate_canopy_cover sample_env (uniform_image (0, 1, 0)) = Fin 0
   \<and> estimate_species_diversity sample_env (uniform_image (0, 1, 0)) = Fin 0
   \<and> (\<exists>c. calculate_canopy_cover sample_env (uniform_image (0, 1, 0)) = Fin c \<and> 0 \<le> c \<and> c \<le> 100)
   \<and> (\<exists>d. estimate_species_diversity sample_env (uniform_image (0, 1, 0)) = Fin d \<and> 0 \<le> d \<and> d \<le> 1)"
  using canopy_and_diversity_ranges [OF canonical_uniform_green, of sample_env]
  by (simp add: canonical_uniform_green canopy_sample diversity_sample)

text \<open>
  Claim C10. Whenever \<open>analyze_multiple_images\<close> returns an aggregate (which it does
  exactly when some per-image result is valid), \<open>valid_analyses\<close> is the length of
  \<open>individual_results\<close>, is positive and at most \<open>total_images\<close>, \<open>total_images\<close> is the
  number of input paths, and their difference is the number of error-tagged per-image
  results.
\<close>

theorem aggregate_counts:
  assumes "fst (analyze_multiple_images e paths md clock) = Inr agg"
  shows "valid_analyses agg = length (individual_results agg)
       \<and> valid_analyses agg \<le> total_images agg
       \<and> total_images agg = length paths
       \<and> total_images agg - valid_analyses agg = length (filter isl (per_image_results e md paths clock))
       \<and> 0 < valid_analyses agg"
proof -
  let ?rs = "per_image_results e md paths clock"
  note a = analyze_multiple_images_Inr [OF assms]
  have "length (filter (\<lambda>r. \<not> isl r) ?rs) = length (valid_results ?rs)"
    by (simp add: map_Inr_valid_results [symmetric])
  moreover have "length (filter isl ?rs) + length (filter (\<lambda>r. \<not> isl r) ?rs) = length ?rs"
    using sum_length_filter_compl [of isl ?rs] by simp
  ultimately show ?thesis
    using a by (simp add: length_per_image_results)
qed

text \<open>
  C10 on the sample environment: three paths, two valid results, one error.
\<close>

theorem aggregate_counts_witness:
  "\<exists>agg. fst (analyze_multiple_images sample_env [''bad.jpg'', ''ok.jpg'', ''ok.jpg''] None 0) = Inr agg
     \<and> valid_analyses agg = 2 \<and> length (individual_results agg) = 2 \<and> total_images agg = 3
     \<and> total_images agg - valid_analyses agg = 1"
proof -
  have "valid_results (per_image_results sample_env None [''bad.jpg'', ''ok.jpg'', ''ok.jpg''] 0) \<noteq> []"
    unfolding sample_batch by simp
  from analyze_multiple_images_nonempty [OF this] obtain agg
    where agg: "fst (analyze_multiple_images sample_env [''bad.jpg'', ''ok.jpg'', ''ok.jpg''] None 0) = Inr agg" by auto
  from aggregate_counts [OF agg]
  have "valid_analyses agg = length (individual_results agg) \<and> total_images agg = 3
     \<and> total_images agg - valid_analyses agg = 1 \<and> valid_analyses agg \<le> total_images agg"
    unfolding sample_batch by (simp, arith)
  then have "valid_analyses agg = 2 \<and> length (individual_results agg) = 2 \<and> total_images agg = 3
     \<and> total_images agg - valid_analyses agg = 1"
    by arith
  with agg show ?thesis by blast
qed

end
